theory Spec2Isabelle
  imports Main "HOL-Library.Word" "HOL-Library.AList" "HOL-Library.Sublist"
begin

unbundle bit_operations_syntax

section \<open>The Firestorm manifest updater (helpers/update-firestorm.py)\<close>

text \<open>
  The script is modelled function by function. Python \<open>str\<close> values are \<open>string\<close>s,
  file contents are byte lists, and a \<open>pathlib.Path\<close> is the list of its components, so
  that \<open>p.parent\<close> is \<open>butlast p\<close>, \<open>p / name\<close> is \<open>p @ [name]\<close> and \<open>p.name\<close> is
  \<open>last p\<close>.
\<close>

type_synonym byte = "8 word"
type_synonym bytes = "byte list"
type_synonym path = "string list"

subsection \<open>String helpers of the Python library\<close>

text \<open>
  \<open>s.replace(old, new)\<close> for one-character \<open>old\<close> and \<open>new\<close>, as
  \<open>main\<close> calls it (\<open>dotted_version.replace(".", "-")\<close>).
\<close>

definition str_replace_char :: "char \<Rightarrow> char \<Rightarrow> string \<Rightarrow> string" where
  "str_replace_char old new s = map (\<lambda>c. if c = old then new else c) s"

text \<open>Line 134: \<open>hyphen_version = dotted_version.replace(".", "-")\<close>.\<close>

definition hyphen_version_of :: "string \<Rightarrow> string" where
  "hyphen_version_of dotted_version = str_replace_char (CHR ''.'') (CHR ''-'') dotted_version"

text \<open>
  \<open>Path(url).name\<close> for a URL string: the text after the last \<open>/\<close>. (The
  URLs of this script end in \<open>_Setup.exe\<close>, so the last segment is never empty,
  \<open>.\<close> or \<open>..\<close>; the separator is the POSIX one.)
\<close>

definition url_basename :: "string \<Rightarrow> string" where
  "url_basename url = rev (takeWhile (\<lambda>c. c \<noteq> CHR ''/'') (rev url))"

text \<open>\<open>p.name\<close> of a path: its last component, the empty string for the root.\<close>

definition path_name :: "path \<Rightarrow> string" where
  "path_name p = (if p = [] then [] else last p)"

text \<open>\<open>s.upper()\<close> on ASCII text: the letters \<open>a\<close> to \<open>z\<close> move to \<open>A\<close> to \<open>Z\<close>.\<close>

definition char_upper :: "char \<Rightarrow> char" where
  "char_upper c =
     (case map_of (zip ''abcdefghijklmnopqrstuvwxyz'' ''ABCDEFGHIJKLMNOPQRSTUVWXYZ'') c of
        Some u \<Rightarrow> u
      | None \<Rightarrow> c)"

definition str_upper :: "string \<Rightarrow> string" where
  "str_upper s = map char_upper s"

text \<open>Line 11: \<open>URL_TEMPLATE.format(v)\<close> puts \<open>v\<close> in the place of \<open>{}\<close>.\<close>

definition URL_TEMPLATE_format :: "string \<Rightarrow> string" where
  "URL_TEMPLATE_format v =
     ''https://downloads.firestormviewer.org/preview/windows/Phoenix-Firestorm-Betax64_AVX2-''
     @ v @ ''_Setup.exe''"

subsection \<open>SHA-256 (hashlib.sha256)\<close>

text \<open>
  \<open>hashlib\<close> is not code of the repository; its digest is modelled as the SHA-256
  function of FIPS 180-4, computed in one pass over the whole message.
\<close>

type_synonym w32 = "32 word"

text \<open>The bit functions of FIPS 180-4, section 4.1.2, on 32-bit words.\<close>

definition rotr :: "nat \<Rightarrow> w32 \<Rightarrow> w32" where
  "rotr n x = drop_bit n x OR push_bit (32 - n) x"

definition Ch :: "w32 \<Rightarrow> w32 \<Rightarrow> w32 \<Rightarrow> w32" where
  "Ch x y z = (x AND y) XOR (NOT x AND z)"

definition Maj :: "w32 \<Rightarrow> w32 \<Rightarrow> w32 \<Rightarrow> w32" where
  "Maj x y z = (x AND y) XOR (x AND z) XOR (y AND z)"

definition big_sigma0 :: "w32 \<Rightarrow> w32" where
  "big_sigma0 x = rotr 2 x XOR rotr 13 x XOR rotr 22 x"

definition big_sigma1 :: "w32 \<Rightarrow> w32" where
  "big_sigma1 x = rotr 6 x XOR rotr 11 x XOR rotr 25 x"

definition small_sigma0 :: "w32 \<Rightarrow> w32" where
  "small_sigma0 x = rotr 7 x XOR rotr 18 x XOR drop_bit 3 x"

definition small_sigma1 :: "w32 \<Rightarrow> w32" where
  "small_sigma1 x = rotr 17 x XOR rotr 19 x XOR drop_bit 10 x"

text \<open>
  The sixty-four round constants (FIPS 180-4, section 4.2.2: the first 32 bits of the
  fractional parts of the cube roots of the first 64 primes), in decimal, and the initial
  hash value (section 5.3.3).
\<close>

definition sha256_K :: "w32 list" where
  "sha256_K =
     [
      1116352408, 1899447441, 3049323471, 3921009573, 961987163, 1508970993,
      2453635748, 2870763221, 3624381080, 310598401, 607225278, 1426881987,
      1925078388, 2162078206, 2614888103, 3248222580, 3835390401, 4022224774,
      264347078, 604807628, 770255983, 1249150122, 1555081692, 1996064986,
      2554220882, 2821834349, 2952996808, 3210313671, 3336571891, 3584528711,
      113926993, 338241895, 666307205, 773529912, 1294757372, 1396182291,
      1695183700, 1986661051, 2177026350, 2456956037, 2730485921, 2820302411,
      3259730800, 3345764771, 3516065817, 3600352804, 4094571909, 275423344,
      430227734, 506948616, 659060556, 883997877, 958139571, 1322822218,
      1537002063, 1747873779, 1955562222, 2024104815, 2227730452, 2361852424,
      2428436474, 2756734187, 3204031479, 3329325298
     ]"

type_synonym sha256_state = "w32 \<times> w32 \<times> w32 \<times> w32 \<times> w32 \<times> w32 \<times> w32 \<times> w32"

definition sha256_init :: sha256_state where
  "sha256_init =
     (0x6a09e667, 0xbb67ae85, 0x3c6ef372, 0xa54ff53a,
      0x510e527f, 0x9b05688c, 0x1f83d9ab, 0x5be0cd19)"

text \<open>
  Padding (section 5.1.1): the byte \<open>0x80\<close>, zero bytes up to 56 modulo 64, and the
  message length in bits as a 64-bit big-endian number; then the split into 64-byte blocks.
\<close>

definition be_bytes64 :: "nat \<Rightarrow> bytes" where
  "be_bytes64 n = map (\<lambda>i. of_nat (n div 256 ^ (7 - i))) [0..<8]"

definition sha256_pad :: "bytes \<Rightarrow> bytes" where
  "sha256_pad m =
     m @ [0x80] @ replicate ((119 - length m mod 64) mod 64) 0 @ be_bytes64 (8 * length m)"

function sha256_blocks :: "bytes \<Rightarrow> bytes list" where
  "sha256_blocks bs = (if bs = [] then [] else take 64 bs # sha256_blocks (drop 64 bs))"
  by pat_completeness auto
termination
  by (relation "measure length") auto

text \<open>The message schedule and the compression function (section 6.2.2).\<close>

definition be_word32 :: "bytes \<Rightarrow> w32" where
  "be_word32 bs = foldl (\<lambda>acc b. push_bit 8 acc OR ucast b) 0 bs"

fun block_words :: "nat \<Rightarrow> bytes \<Rightarrow> w32 list" where
  "block_words 0 bs = []"
| "block_words (Suc n) bs = be_word32 (take 4 bs) # block_words n (drop 4 bs)"

fun extend_schedule :: "nat \<Rightarrow> w32 list \<Rightarrow> w32 list" where
  "extend_schedule 0 ws = ws"
| "extend_schedule (Suc n) ws =
     (let i = length ws
      in extend_schedule n
           (ws @ [small_sigma1 (ws ! (i - 2)) + ws ! (i - 7)
                  + small_sigma0 (ws ! (i - 15)) + ws ! (i - 16)]))"

definition sha256_schedule :: "bytes \<Rightarrow> w32 list" where
  "sha256_schedule block = extend_schedule 48 (block_words 16 block)"

fun sha256_round :: "sha256_state \<Rightarrow> w32 \<times> w32 \<Rightarrow> sha256_state" where
  "sha256_round (a, b, c, d, e, f, g, h) (k, w) =
     (let t1 = h + big_sigma1 e + Ch e f g + k + w;
          t2 = big_sigma0 a + Maj a b c
      in (t1 + t2, a, b, c, d + t1, e, f, g))"

fun sha256_add :: "sha256_state \<Rightarrow> sha256_state \<Rightarrow> sha256_state" where
  "sha256_add (a, b, c, d, e, f, g, h) (a', b', c', d', e', f', g', h') =
     (a + a', b + b', c + c', d + d', e + e', f + f', g + g', h + h')"

definition sha256_compress :: "sha256_state \<Rightarrow> bytes \<Rightarrow> sha256_state" where
  "sha256_compress s block =
     sha256_add s (foldl sha256_round s (zip sha256_K (sha256_schedule block)))"

text \<open>The digest: the eight state words, big-endian, 32 bytes.\<close>

definition word32_bytes :: "w32 \<Rightarrow> bytes" where
  "word32_bytes x = [ucast (drop_bit 24 x), ucast (drop_bit 16 x), ucast (drop_bit 8 x), ucast x]"

fun sha256_output :: "sha256_state \<Rightarrow> bytes" where
  "sha256_output (a, b, c, d, e, f, g, h) =
     word32_bytes a @ word32_bytes b @ word32_bytes c @ word32_bytes d
     @ word32_bytes e @ word32_bytes f @ word32_bytes g @ word32_bytes h"

definition sha256 :: "bytes \<Rightarrow> bytes" where
  "sha256 m = sha256_output (foldl sha256_compress sha256_init (sha256_blocks (sha256_pad m)))"

text \<open>
  The hash object. By the contract of \<open>hashlib\<close>, \<open>update(a); update(b)\<close> is
  \<open>update(a + b)\<close>: the object is the bytes fed so far, and \<open>hexdigest()\<close> is the
  digest of them in lowercase hexadecimal.
\<close>

type_synonym hasher = bytes

definition sha256_new :: hasher where
  "sha256_new = []"

definition sha256_update :: "hasher \<Rightarrow> bytes \<Rightarrow> hasher" where
  "sha256_update h chunk = h @ chunk"

definition hex_digit :: "nat \<Rightarrow> char" where
  "hex_digit n = ''0123456789abcdef'' ! (n mod 16)"

definition hex_byte :: "byte \<Rightarrow> string" where
  "hex_byte b = [hex_digit (unat b div 16), hex_digit (unat b mod 16)]"

definition sha256_hexdigest :: "hasher \<Rightarrow> string" where
  "sha256_hexdigest h = concat (map hex_byte (sha256 h))"

subsection \<open>JSON documents and Python subscripting\<close>

text \<open>
  What \<open>json.load\<close> returns: \<open>None\<close>, a bool, an int, a float (kept as its
  \<open>repr\<close>), a str, a list, or a dict. A dict keeps its keys in insertion order, so it
  is an association list; \<open>map_of\<close> reads it and \<open>AList.update\<close> assigns to a key in
  place, or appends a new key at the end, as Python does.
\<close>

datatype json =
    JNull
  | JBool bool
  | JInt int
  | JFloat string
  | JString string
  | JArray "json list"
  | JObject "(string \<times> json) list"

datatype exn =
    SystemExit int
  | KeyError string
  | TypeError
  | FileNotFoundError path
  | JSONDecodeError
  | CalledProcessError
  | HTTPError nat
  | RequestException string
  | UnicodeEncodeError
  | FileExistsError path

text \<open>\<open>obj[key]\<close> with a string key: only a dict can be read that way.\<close>

fun py_getitem :: "json \<Rightarrow> string \<Rightarrow> exn + json" where
  "py_getitem (JObject kvs) key =
     (case map_of kvs key of None \<Rightarrow> Inl (KeyError key) | Some v \<Rightarrow> Inr v)"
| "py_getitem _ key = Inl TypeError"

text \<open>\<open>obj[key] = v\<close> with a string key.\<close>

fun py_setitem :: "json \<Rightarrow> string \<Rightarrow> json \<Rightarrow> exn + json" where
  "py_setitem (JObject kvs) key v = Inr (JObject (AList.update key v kvs))"
| "py_setitem _ key v = Inl TypeError"

text \<open>
  \<open>manifest[k1][k2][k3] = v\<close>. Python mutates the innermost dict, which the outer
  dicts hold by reference; in the tree model the changed dict is stored back at the key it
  was read from (the two store steps cannot fail and keep the key's position).
\<close>

definition py_setitem3 :: "json \<Rightarrow> string \<Rightarrow> string \<Rightarrow> string \<Rightarrow> json \<Rightarrow> exn + json" where
  "py_setitem3 manifest k1 k2 k3 v =
     (case py_getitem manifest k1 of
        Inl e \<Rightarrow> Inl e
      | Inr a \<Rightarrow>
          (case py_getitem a k2 of
             Inl e \<Rightarrow> Inl e
           | Inr b \<Rightarrow>
               (case py_setitem b k3 v of
                  Inl e \<Rightarrow> Inl e
                | Inr b' \<Rightarrow>
                    (case py_setitem a k2 b' of
                       Inl e \<Rightarrow> Inl e
                     | Inr a' \<Rightarrow> py_setitem manifest k1 a'))))"

subsection \<open>The world the script runs in\<close>

text \<open>
  The lines the script prints, one constructor per \<open>print\<close> call (\<open>Next_steps\<close>
  stands for the five lines 155 to 159), and the two texts of \<open>argparse\<close>: the usage
  with its error message, and the help.
\<close>

datatype msg =
    Creating_venv
  | Installing_requests
  | Venv_setup_failed
  | Rerunning
  | Downloading string
  | Version_not_found string
  | HTTP_error nat
  | Network_error string
  | Calculating_sha256
  | Updating_manifest
  | Cleaning_up
  | Removed string
  | Requests_not_found
  | Manifest_not_found path
  | Done_version string
  | Sha256_report string
  | Next_steps string
  | Usage_text
  | Help_text

datatype command = Venv_create | Venv_import_requests | Pip_install_requests | Rerun_script

text \<open>
  Everything the script does to the outside, in order: printing, the GET request,
  \<open>mkdir\<close>, opening a file for writing, \<open>unlink\<close>, and starting a child process;
  and what a child process of the bootstrap does in its turn: the URLs it fetches and the
  files it writes.
\<close>

datatype event =
    Print msg
  | Http_get string
  | Mkdir path
  | Write_file path
  | Unlink path
  | Spawn command
  | Child_get string
  | Child_write path

text \<open>
  The state: the regular files on disk with their contents, and the trace of events so
  far. Directories are not part of the state (the repository layout provides
  \<open>helpers/\<close> and \<open>bucket/\<close>). File operations fail where a file to read is
  missing, where \<open>mkdir\<close> meets a regular file, and where the dump of the manifest
  raises.
\<close>

record world =
  files :: "path \<rightharpoonup> bytes"
  trace :: "event list"

definition emit :: "event \<Rightarrow> world \<Rightarrow> world" where
  "emit e w = w\<lparr>trace := trace w @ [e]\<rparr>"

text \<open>
  What \<open>requests.get(url, stream=True)\<close> gives: a transport failure (connection
  refused, timeout, DNS failure: a \<open>RequestException\<close> that is no \<open>HTTPError\<close>), or
  a response with its status code and the chunks \<open>iter_content(chunk_size=8192)\<close>
  yields, after which the stream may break with a \<open>RequestException\<close> (its message
  is kept).
\<close>

record response =
  status_code :: nat
  body_chunks :: "bytes list"
  body_error :: "string option"

datatype http_result = Transport_failure string | Response response

text \<open>
  What the script gets from outside: the directory it lives in
  (\<open>Path(__file__).resolve().parent\<close>), the network, the \<open>json\<close> library
  (\<open>json.load\<close> of a file's bytes, \<open>None\<close> where it raises
  \<open>JSONDecodeError\<close>; \<open>json.dump\<close> with \<open>indent=2\<close> and
  \<open>ensure_ascii=False\<close> into a file opened with \<open>encoding='utf-8'\<close>), whether
  \<open>import requests\<close> works in the invoking interpreter, and what the commands of the
  bootstrap do and how they end.

  \<open>json.dump\<close> can raise while it writes: a string with a code point that UTF-8
  cannot encode (a lone surrogate, which \<open>json.load\<close> accepts as an escape) gives
  \<open>UnicodeEncodeError\<close> after a part of the text has gone to the file.
  \<open>json_dump_error env d\<close> is \<open>None\<close> when the dump of \<open>d\<close> completes, and
  the fragment left in the file when it raises; \<open>json_dump env d\<close> is the complete
  text.

  A command of the bootstrap (\<open>python -m venv\<close>, the import test, \<open>pip install\<close>)
  is a program of its own. \<open>child_writes env c\<close> lists the files it writes, by their
  paths below the directory of the virtual environment, and \<open>child_gets env c\<close> the
  URLs it fetches.
\<close>

record env =
  script_dir :: path
  http_get :: "string \<Rightarrow> http_result"
  json_load :: "bytes \<Rightarrow> json option"
  json_dump :: "json \<Rightarrow> bytes"
  json_dump_error :: "json \<Rightarrow> bytes option"
  child_writes :: "command \<Rightarrow> (path \<times> bytes) list"
  child_gets :: "command \<Rightarrow> string list"
  requests_importable :: bool
  venv_exists :: bool
  venv_create_ok :: bool
  venv_python_found :: bool
  venv_has_requests :: bool
  pip_found :: bool
  pip_install_ok :: bool

record args =
  version :: string
  keep_temp :: bool

text \<open>
  What \<open>parser.parse_args()\<close> makes of the command line: the parsed arguments, or the
  usage text and \<open>sys.exit(2)\<close> for a command line it refuses, or the help text and
  \<open>sys.exit(0)\<close> for \<open>--help\<close>.
\<close>

datatype cmdline = Parsed args | Usage_error | Help_requested

text \<open>
  The exit status of the process: 0 when \<open>main\<close> returns, the code of
  \<open>sys.exit\<close>, and 1 for an exception nobody catches.
\<close>

fun exit_code :: "exn + 'a \<Rightarrow> int" where
  "exit_code (Inr _) = 0"
| "exit_code (Inl (SystemExit c)) = c"
| "exit_code (Inl _) = 1"

subsection \<open>setup_venv (lines 14 to 37)\<close>

definition venv_path_of :: "env \<Rightarrow> path" where
  "venv_path_of env = script_dir env @ [''venv'']"

text \<open>
  A command of the bootstrap runs: it is started, fetches its URLs and writes its files
  below the directory of the virtual environment.
\<close>

definition run_child :: "env \<Rightarrow> command \<Rightarrow> world \<Rightarrow> world" where
  "run_child env c w =
     (let written = map (\<lambda>(rel, content). (venv_path_of env @ rel, content)) (child_writes env c)
      in \<lparr>files = fold (\<lambda>(p, content) f. f(p \<mapsto> content)) written (files w),
          trace = trace w @ [Spawn c] @ map Child_get (child_gets env c)
                  @ map (\<lambda>(p, content). Child_write p) written\<rparr>)"

text \<open>
  \<open>subprocess.run\<close> raises \<open>CalledProcessError\<close> where \<open>check=True\<close> meets a
  non-zero status, and \<open>FileNotFoundError\<close> where the executable is not found; the
  \<open>except\<close> clause of lines 33 to 35 turns the latter into \<open>sys.exit(1)\<close>.
\<close>

definition setup_venv :: "env \<Rightarrow> world \<Rightarrow> (exn + path) \<times> world" where
  "setup_venv env w =
     (let venv_path = venv_path_of env;
          w1 = (if \<not> venv_exists env
                then run_child env Venv_create (emit (Print Creating_venv) w) else w)
      in if \<not> venv_exists env \<and> \<not> venv_create_ok env then (Inl CalledProcessError, w1)
         else
           let pip_path = venv_path @ [''Scripts'', ''pip.exe''];
               python_path = venv_path @ [''Scripts'', ''python.exe'']
           in if \<not> venv_python_found env
              then (Inl (SystemExit 1), emit (Print Venv_setup_failed) w1)
              else
                let w2 = run_child env Venv_import_requests w1
                in if venv_has_requests env then (Inr python_path, w2)
                   else
                     let w3 = emit (Print Installing_requests) w2
                     in if \<not> pip_found env
                        then (Inl (SystemExit 1), emit (Print Venv_setup_failed) w3)
                        else
                          let w4 = run_child env Pip_install_requests w3
                          in if pip_install_ok env then (Inr python_path, w4)
                             else (Inl CalledProcessError, w4))"

subsection \<open>download_installer (lines 51 to 77)\<close>

text \<open>The loop of lines 73 to 75: every non-empty chunk is appended to the file.\<close>

fun write_chunks :: "bytes list \<Rightarrow> bytes \<Rightarrow> bytes" where
  "write_chunks [] f = f"
| "write_chunks (chunk # rest) f = write_chunks rest (if chunk \<noteq> [] then f @ chunk else f)"

text \<open>
  \<open>response.raise_for_status()\<close>: \<open>HTTPError\<close> for a status from 400 to 599.
\<close>

definition raise_for_status :: "response \<Rightarrow> exn + unit" where
  "raise_for_status r =
     (if 400 \<le> status_code r \<and> status_code r < 600 then Inl (HTTPError (status_code r))
      else Inr ())"

text \<open>Lines 59 and 60, the body of the \<open>try\<close>: the request, then the status check.\<close>

definition get_checked :: "env \<Rightarrow> string \<Rightarrow> exn + response" where
  "get_checked env url =
     (case http_get env url of
        Transport_failure e \<Rightarrow> Inl (RequestException e)
      | Response r \<Rightarrow> (case raise_for_status r of Inl e \<Rightarrow> Inl e | Inr _ \<Rightarrow> Inr r))"

text \<open>
  The first handler takes an \<open>HTTPError\<close> (404 apart from the rest), the second every
  other \<open>RequestException\<close>; each prints its line and calls \<open>sys.exit(1)\<close>. Any
  other exception would pass through. Only after the \<open>try\<close> is the destination
  opened for writing; an exception of the body stream leaves the file as far as it was
  written.
\<close>

definition download_installer :: "env \<Rightarrow> string \<Rightarrow> path \<Rightarrow> world \<Rightarrow> (exn + path) \<times> world" where
  "download_installer env hyphen_version dest w =
     (let url = URL_TEMPLATE_format hyphen_version;
          filename = dest @ [url_basename url];
          w1 = emit (Http_get url) (emit (Print (Downloading url)) w)
      in case get_checked env url of
           Inl (HTTPError code) \<Rightarrow>
             if code = 404
             then (Inl (SystemExit 1), emit (Print (Version_not_found url)) w1)
             else (Inl (SystemExit 1), emit (Print (HTTP_error code)) w1)
         | Inl (RequestException e) \<Rightarrow> (Inl (SystemExit 1), emit (Print (Network_error e)) w1)
         | Inl e \<Rightarrow> (Inl e, w1)
         | Inr r \<Rightarrow>
             let w2 = emit (Write_file filename) w1;
                 w3 = w2\<lparr>files := (files w2)(filename \<mapsto> write_chunks (body_chunks r) [])\<rparr>
             in (case body_error r of
                   Some e \<Rightarrow> (Inl (RequestException e), w3)
                 | None \<Rightarrow> (Inr filename, w3)))"

subsection \<open>calculate_sha256 (lines 80 to 87)\<close>

text \<open>
  The loop of lines 85 and 86: \<open>f.read(8192)\<close> takes the next 8192 bytes (fewer at the
  end of the file), and the loop stops at the first empty read.
\<close>

function read_chunks :: "bytes \<Rightarrow> hasher \<Rightarrow> hasher" where
  "read_chunks rest h =
     (let chunk = take 8192 rest
      in if chunk = [] then h else read_chunks (drop 8192 rest) (sha256_update h chunk))"
  by pat_completeness auto
termination
  by (relation "measure (\<lambda>(rest, h). length rest)") auto

definition calculate_sha256 :: "path \<Rightarrow> world \<Rightarrow> (exn + string) \<times> world" where
  "calculate_sha256 filepath w =
     (let w1 = emit (Print Calculating_sha256) w
      in case files w1 filepath of
           None \<Rightarrow> (Inl (FileNotFoundError filepath), w1)
         | Some content \<Rightarrow>
             (Inr (str_upper (sha256_hexdigest (read_chunks content sha256_new))), w1))"

subsection \<open>update_manifest (lines 90 to 106)\<close>

text \<open>Lines 98 to 102: the three assignments, on the parsed document.\<close>

definition manifest_assignments :: "json \<Rightarrow> string \<Rightarrow> string \<Rightarrow> string \<Rightarrow> exn + json" where
  "manifest_assignments manifest dotted_version hyphen_version checksum =
     (case py_setitem manifest ''version'' (JString dotted_version) of
        Inl e \<Rightarrow> Inl e
      | Inr m1 \<Rightarrow>
          (case py_setitem3 m1 ''architecture'' ''64bit'' ''url''
                  (JString (URL_TEMPLATE_format hyphen_version)) of
             Inl e \<Rightarrow> Inl e
           | Inr m2 \<Rightarrow>
               py_setitem3 m2 ''architecture'' ''64bit'' ''hash''
                 (JString (''sha256:'' @ checksum))))"

text \<open>
  The file is read and parsed, the assignments are made in memory, and only then is the
  file opened for writing, which empties it, and the document dumped into it. When the
  dump raises, the \<open>with\<close> block closes the file with the fragment written so far.
\<close>

definition update_manifest ::
  "env \<Rightarrow> path \<Rightarrow> string \<Rightarrow> string \<Rightarrow> string \<Rightarrow> world \<Rightarrow> (exn + unit) \<times> world" where
  "update_manifest env manifest_path dotted_version hyphen_version checksum w =
     (let w1 = emit (Print Updating_manifest) w
      in case files w1 manifest_path of
           None \<Rightarrow> (Inl (FileNotFoundError manifest_path), w1)
         | Some raw \<Rightarrow>
             (case json_load env raw of
                None \<Rightarrow> (Inl JSONDecodeError, w1)
              | Some manifest \<Rightarrow>
                  (case manifest_assignments manifest dotted_version hyphen_version checksum of
                     Inl e \<Rightarrow> (Inl e, w1)
                   | Inr manifest' \<Rightarrow>
                       let w2 = emit (Write_file manifest_path) w1
                       in (case json_dump_error env manifest' of
                             Some fragment \<Rightarrow>
                               (Inl UnicodeEncodeError,
                                w2\<lparr>files := (files w2)(manifest_path \<mapsto> fragment)\<rparr>)
                           | None \<Rightarrow>
                               (Inr (),
                                w2\<lparr>files := (files w2)
                                      (manifest_path \<mapsto> json_dump env manifest')\<rparr>)))))"

subsection \<open>cleanup_temp_files (lines 109 to 115)\<close>

definition unlink :: "path \<Rightarrow> world \<Rightarrow> world" where
  "unlink p w = emit (Unlink p) (w\<lparr>files := (files w)(p := None)\<rparr>)"

fun cleanup_loop :: "path list \<Rightarrow> world \<Rightarrow> world" where
  "cleanup_loop [] w = w"
| "cleanup_loop (file_path # rest) w =
     cleanup_loop rest
       (if files w file_path \<noteq> None
        then emit (Print (Removed (path_name file_path))) (unlink file_path w)
        else w)"

definition cleanup_temp_files :: "path list \<Rightarrow> world \<Rightarrow> world" where
  "cleanup_temp_files temp_files w = cleanup_loop temp_files (emit (Print Cleaning_up) w)"

subsection \<open>main (lines 118 to 164)\<close>

definition manifest_path_of :: "env \<Rightarrow> path" where
  "manifest_path_of env = butlast (script_dir env) @ [''bucket'', ''firestorm-beta.json'']"

definition temp_dir_of :: "env \<Rightarrow> path" where
  "temp_dir_of env = script_dir env @ [''temp'']"

text \<open>
  The body of the \<open>try\<close> (lines 146 to 159). Beside the outcome it returns the local
  \<open>installer_path\<close>, which is bound only once \<open>download_installer\<close> has returned.
\<close>

definition main_try ::
  "env \<Rightarrow> path \<Rightarrow> string \<Rightarrow> string \<Rightarrow> path \<Rightarrow> world \<Rightarrow> (exn + unit) \<times> path option \<times> world" where
  "main_try env manifest_path dotted_version hyphen_version temp_dir w =
     (case download_installer env hyphen_version temp_dir w of
        (Inl e, w1) \<Rightarrow> (Inl e, None, w1)
      | (Inr installer_path, w1) \<Rightarrow>
          (case calculate_sha256 installer_path w1 of
             (Inl e, w2) \<Rightarrow> (Inl e, Some installer_path, w2)
           | (Inr checksum, w2) \<Rightarrow>
               (case update_manifest env manifest_path dotted_version hyphen_version checksum w2 of
                  (Inl e, w3) \<Rightarrow> (Inl e, Some installer_path, w3)
                | (Inr _, w3) \<Rightarrow>
                    (Inr (), Some installer_path,
                     emit (Print (Next_steps dotted_version))
                       (emit (Print (Sha256_report checksum))
                          (emit (Print (Done_version dotted_version)) w3))))))"

text \<open>
  Lines 127 to 164: what \<open>main\<close> does once \<open>import requests\<close> has succeeded.
  \<open>parse_args\<close> comes first and may end the process. \<open>mkdir(exist_ok=True)\<close>
  raises \<open>FileExistsError\<close> where the temp path is a regular file. The \<open>finally\<close>
  block runs for every outcome of the \<open>try\<close>, \<open>SystemExit\<close> included, and the
  outcome passes through it.
\<close>

definition main_with_requests :: "env \<Rightarrow> cmdline \<Rightarrow> world \<Rightarrow> (exn + unit) \<times> world" where
  "main_with_requests env cl w =
     (case cl of
        Help_requested \<Rightarrow> (Inl (SystemExit 0), emit (Print Help_text) w)
      | Usage_error \<Rightarrow> (Inl (SystemExit 2), emit (Print Usage_text) w)
      | Parsed a \<Rightarrow>
          (let dotted_version = version a;
               hyphen_version = hyphen_version_of dotted_version;
               manifest_path = manifest_path_of env;
               temp_dir = temp_dir_of env
           in if files w temp_dir \<noteq> None then (Inl (FileExistsError temp_dir), w)
              else
                let w1 = emit (Mkdir temp_dir) w
                in if files w1 manifest_path = None
                   then (Inl (SystemExit 1), emit (Print (Manifest_not_found manifest_path)) w1)
                   else
                     (case main_try env manifest_path dotted_version hyphen_version temp_dir w1 of
                        (r, installer_path, w2) \<Rightarrow>
                          if \<not> keep_temp a
                          then (r, cleanup_temp_files
                                     (case installer_path of Some p \<Rightarrow> [p] | None \<Rightarrow> []) w2)
                          else (r, w2))))"

text \<open>
  Lines 40 to 48. The child process runs this script, with the same command line, under
  the interpreter of the virtual environment, where \<open>setup_venv\<close> has just seen
  \<open>import requests\<close> succeed or has installed it; the parent exits with the child's
  exit status.
\<close>

definition run_with_venv :: "env \<Rightarrow> cmdline \<Rightarrow> world \<Rightarrow> (exn + unit) \<times> world" where
  "run_with_venv env cl w =
     (case setup_venv env w of
        (Inl e, w1) \<Rightarrow> (Inl e, w1)
      | (Inr venv_python, w1) \<Rightarrow>
          (case main_with_requests env cl (emit (Spawn Rerun_script) (emit (Print Rerunning) w1)) of
             (r, w2) \<Rightarrow> (Inl (SystemExit (exit_code r)), w2)))"

definition main :: "env \<Rightarrow> cmdline \<Rightarrow> world \<Rightarrow> (exn + unit) \<times> world" where
  "main env cl w =
     (if \<not> requests_importable env
      then run_with_venv env cl (emit (Print Requests_not_found) w)
      else main_with_requests env cl w)"

text \<open>
  The events of the bootstrap: its lines, the child processes it starts, and what these
  fetch and write.
\<close>

definition bootstrap_event :: "event \<Rightarrow> bool" where
  "bootstrap_event e =
     (case e of
        Print m \<Rightarrow>
          m \<in> set [Requests_not_found, Creating_venv, Installing_requests, Venv_setup_failed,
                    Rerunning]
      | Spawn c \<Rightarrow> True
      | Child_get u \<Rightarrow> True
      | Child_write p \<Rightarrow> True
      | _ \<Rightarrow> False)"

text \<open>
  What the bootstrap may do to a state: files change only below the directory of the
  virtual environment, and the trace grows by events of the bootstrap, whose writes are
  below that directory.
\<close>

definition bootstrap_only :: "env \<Rightarrow> world \<Rightarrow> world \<Rightarrow> bool" where
  "bootstrap_only env w w' =
     ((\<forall>p. \<not> prefix (venv_path_of env) p \<longrightarrow> files w' p = files w p)
      \<and> (\<exists>evs. trace w' = trace w @ evs \<and> list_all bootstrap_event evs
            \<and> (\<forall>p. Child_write p \<in> set evs \<longrightarrow> prefix (venv_path_of env) p)))"

subsection \<open>Reading a document by field path\<close>

text \<open>
  \<open>json_at d [k1, k2, ...]\<close> is \<open>d[k1][k2]...\<close> where every step is a key of a
  dict, and \<open>None\<close> where it is not. The fields \<open>update_manifest\<close> assigns are
  \<open>target_fields\<close>; a path is \<open>touched\<close> when it leads to one of them, or into or
  out of one of them (a dict that holds a target field, or a part of the old value of a
  target field).
\<close>

fun json_at :: "json \<Rightarrow> string list \<Rightarrow> json option" where
  "json_at j [] = Some j"
| "json_at (JObject kvs) (k # ks) =
     (case map_of kvs k of None \<Rightarrow> None | Some v \<Rightarrow> json_at v ks)"
| "json_at _ (k # ks) = None"

fun json_keys :: "json \<Rightarrow> string list" where
  "json_keys (JObject kvs) = map fst kvs"
| "json_keys _ = []"

definition target_fields :: "string list list" where
  "target_fields =
     [[''version''], [''architecture'', ''64bit'', ''url''], [''architecture'', ''64bit'', ''hash'']]"

definition touched :: "string list \<Rightarrow> bool" where
  "touched p = list_ex (\<lambda>t. prefix p t \<or> prefix t p) target_fields"

subsection \<open>Example inputs\<close>

definition example_world :: world where
  "example_world =
     \<lparr>files = [[''repo'', ''helpers'', ''temp'', ''old_Setup.exe''] \<mapsto> [1, 2, 3],
               [''repo'', ''bucket'', ''firestorm-beta.json''] \<mapsto> [123, 125]],
      trace = []\<rparr>"

text \<open>The manifest of the end-to-end scenario, and a repository that holds it.\<close>

definition example_manifest :: json where
  "example_manifest =
     JObject [(''version'', JString ''7.2.0.1''),
              (''architecture'',
               JObject [(''64bit'',
                         JObject [(''url'', JString ''old''), (''hash'', JString ''sha256:AAA'')])]),
              (''other'', JString ''keep'')]"

text \<open>
  An environment for the examples: the script lies in \<open>repo/helpers\<close>, every download
  answers 200 with three chunks, the stand-in for the \<open>json\<close> library knows the
  example document only and dumps everything, creating the virtual environment writes
  one file, and \<open>pip\<close> fetches one URL.
\<close>

definition example_env :: env where
  "example_env =
     \<lparr>script_dir = [''repo'', ''helpers''],
      http_get = (\<lambda>url. Response \<lparr>status_code = 200, body_chunks = [[1, 2], [], [3]],
                                    body_error = None\<rparr>),
      json_load = (\<lambda>raw. if raw = [123, 125] then Some example_manifest else None),
      json_dump = (\<lambda>d. if d = example_manifest then [123, 125] else [123, 32, 125]),
      json_dump_error = (\<lambda>d. None),
      child_writes = (\<lambda>c. if c = Venv_create then [([''pyvenv.cfg''], [104])] else []),
      child_gets = (\<lambda>c. if c = Pip_install_requests then [''https://pypi.org/simple/requests/'']
                         else []),
      requests_importable = True,
      venv_exists = False,
      venv_create_ok = True,
      venv_python_found = True,
      venv_has_requests = False,
      pip_found = True,
      pip_install_ok = True\<rparr>"

definition example_env_404 :: env where
  "example_env_404 =
     example_env\<lparr>http_get := (\<lambda>url. Response \<lparr>status_code = 404, body_chunks = [],
                                                  body_error = None\<rparr>)\<rparr>"

definition example_args :: args where
  "example_args = \<lparr>version = ''7.2.0.2'', keep_temp = False\<rparr>"

text \<open>
  A manifest with a string that UTF-8 cannot encode (\<open><U+D83D>\<close> stands for the lone
  surrogate, which the model's strings cannot hold), the repository that holds it, and a
  \<open>json\<close> library whose dump stops at that string, with the opening brace and a
  line break in the file.
\<close>

definition example_manifest_surrogate :: json where
  "example_manifest_surrogate =
     JObject [(''version'', JString ''7.2.0.1''),
              (''architecture'',
               JObject [(''64bit'',
                         JObject [(''url'', JString ''old''), (''hash'', JString ''sha256:AAA'')])]),
              (''note'', JString ''<U+D83D>''),
              (''other'', JString ''keep'')]"

definition example_world_surrogate :: world where
  "example_world_surrogate =
     \<lparr>files = [[''repo'', ''bucket'', ''firestorm-beta.json''] \<mapsto> [123, 34, 125]],
      trace = []\<rparr>"

definition example_env_bad_dump :: env where
  "example_env_bad_dump =
     example_env
       \<lparr>json_load :=
          (\<lambda>raw. if raw = [123, 34, 125] then Some example_manifest_surrogate else None),
        json_dump_error :=
          (\<lambda>d. if json_at d [''note''] = Some (JString ''<U+D83D>'') then Some [123, 10]
                else None)\<rparr>"

text \<open>The body of the download breaks off after its first chunk.\<close>

definition example_env_stream_break :: env where
  "example_env_stream_break =
     example_env\<lparr>http_get := (\<lambda>url. Response \<lparr>status_code = 200, body_chunks = [[1, 2]],
                                                  body_error = Some ''connection reset''\<rparr>)\<rparr>"


definition example_env_500 :: env where
  "example_env_500 =
     example_env\<lparr>http_get := (\<lambda>url. Response \<lparr>status_code = 500, body_chunks = [],
                                                  body_error = None\<rparr>)\<rparr>"

definition example_env_offline :: env where
  "example_env_offline = example_env\<lparr>http_get := (\<lambda>url. Transport_failure ''timed out'')\<rparr>"



section \<open>Properties\<close>

subsection \<open>The hyphenation transform\<close>

lemma str_replace_char_length: "length (str_replace_char a b s) = length s"
  by (simp add: str_replace_char_def)

lemma str_replace_char_nth:
  "i < length s \<Longrightarrow> str_replace_char a b s ! i = (if s ! i = a then b else s ! i)"
  by (simp add: str_replace_char_def)

lemma str_replace_char_back:
  "a \<noteq> b \<Longrightarrow> (str_replace_char b a (str_replace_char a b s) = s) = (b \<notin> set s)"
  by (induction s) (auto simp: str_replace_char_def)

text \<open>
  Claim C8. The hyphenated version has the length of the dotted one and agrees with it
  character by character, except that every \<open>.\<close> has become \<open>-\<close>; and replacing every
  \<open>-\<close> of the hyphenated form by \<open>.\<close> gives the dotted string back exactly when the
  dotted string contains no \<open>-\<close>.
\<close>

theorem hyphen_version_roundtrip:
  "length (hyphen_version_of d) = length d
   \<and> list_all2 (\<lambda>c h. h = (if c = CHR ''.'' then CHR ''-'' else c)) d (hyphen_version_of d)
   \<and> ((str_replace_char (CHR ''-'') (CHR ''.'') (hyphen_version_of d) = d) = (CHR ''-'' \<notin> set d))"
proof -
  have "list_all2 (\<lambda>c h. h = (if c = CHR ''.'' then CHR ''-'' else c)) d (hyphen_version_of d)"
    by (simp add: list_all2_conv_all_nth hyphen_version_of_def str_replace_char_def)
  moreover have "(str_replace_char (CHR ''-'') (CHR ''.'') (hyphen_version_of d) = d) = (CHR ''-'' \<notin> set d)"
    unfolding hyphen_version_of_def by (rule str_replace_char_back) simp
  ultimately show ?thesis
    by (simp add: hyphen_version_of_def str_replace_char_length)
qed

subsection \<open>The checksum\<close>

declare read_chunks.simps [simp del]

lemma read_chunks_all: "read_chunks rest h = h @ rest"
proof (induction rest h rule: read_chunks.induct)
  case (1 rest h)
  show ?case
  proof (cases "take 8192 rest = []")
    case True
    then have "rest = []" by (cases rest) simp_all
    with True show ?thesis by (subst read_chunks.simps) simp
  next
    case False
    then have "read_chunks rest h = read_chunks (drop 8192 rest) (sha256_update h (take 8192 rest))"
      by (subst read_chunks.simps) (simp add: Let_def)
    also have "\<dots> = sha256_update h (take 8192 rest) @ drop 8192 rest"
      using False by (intro "1.IH") simp_all
    finally show ?thesis by (simp add: sha256_update_def)
  qed
qed

lemma sha256_output_length: "length (sha256_output s) = 32"
  by (induction s rule: sha256_output.induct) (simp add: word32_bytes_def)

lemma sha256_length: "length (sha256 m) = 32"
  by (simp add: sha256_def sha256_output_length)

lemma hex_bytes_length: "length (concat (map hex_byte bs)) = 2 * length bs"
  by (induction bs) (simp_all add: hex_byte_def)

lemma hex_digit_lower: "hex_digit n \<in> set ''0123456789abcdef''"
  unfolding hex_digit_def by (rule nth_mem) simp

lemma char_upper_hex:
  assumes "c \<in> set ''0123456789abcdef''"
  shows "char_upper c \<in> set ''0123456789ABCDEF''"
proof -
  have "list_all (\<lambda>c. char_upper c \<in> set ''0123456789ABCDEF'') ''0123456789abcdef''"
    by (simp add: char_upper_def)
  with assms show ?thesis
    unfolding list_all_iff by blast
qed

lemma hex_bytes_upper: "set (str_upper (concat (map hex_byte bs))) \<subseteq> set ''0123456789ABCDEF''"
proof (induction bs)
  case Nil
  then show ?case by (simp add: str_upper_def)
next
  case (Cons b bs)
  have "char_upper (hex_digit (unat b div 16)) \<in> set ''0123456789ABCDEF''"
    and "char_upper (hex_digit (unat b mod 16)) \<in> set ''0123456789ABCDEF''"
    by (rule char_upper_hex, rule hex_digit_lower)+
  with Cons show ?case
    unfolding str_upper_def hex_byte_def by simp
qed

lemma calculate_sha256_result:
  "files w filepath = Some content \<Longrightarrow>
   calculate_sha256 filepath w
   = (Inr (str_upper (concat (map hex_byte (sha256 content)))), emit (Print Calculating_sha256) w)"
  by (simp add: calculate_sha256_def emit_def read_chunks_all sha256_new_def sha256_hexdigest_def)

lemma calculate_sha256_missing:
  "files w filepath = None \<Longrightarrow>
   calculate_sha256 filepath w
   = (Inl (FileNotFoundError filepath), emit (Print Calculating_sha256) w)"
  by (simp add: calculate_sha256_def emit_def)

text \<open>
  Claim C3. For a file that can be read, \<open>calculate_sha256\<close> returns the SHA-256 digest
  of all the bytes of the file, computed in one pass by the reference function, as
  uppercase hexadecimal text: 64 characters, each of \<open>0\<close> to \<open>9\<close> and \<open>A\<close> to
  \<open>F\<close>. The result depends on the bytes only, and the files are left as they were.
\<close>

theorem calculate_sha256_reference:
  assumes "files w filepath = Some content"
  shows "fst (calculate_sha256 filepath w)
           = Inr (str_upper (concat (map hex_byte (sha256 content))))
         \<and> length (str_upper (concat (map hex_byte (sha256 content)))) = 64
         \<and> set (str_upper (concat (map hex_byte (sha256 content)))) \<subseteq> set ''0123456789ABCDEF''
         \<and> files (snd (calculate_sha256 filepath w)) = files w"
proof -
  have "length (str_upper (concat (map hex_byte (sha256 content)))) = 64"
    by (simp add: str_upper_def hex_bytes_length sha256_length)
  with assms show ?thesis
    using hex_bytes_upper [of "sha256 content"]
    by (simp add: calculate_sha256_result emit_def)
qed

theorem calculate_sha256_reference_witness:
  "files example_world [''repo'', ''helpers'', ''temp'', ''old_Setup.exe''] = Some [1, 2, 3]
   \<and> fst (calculate_sha256 [''repo'', ''helpers'', ''temp'', ''old_Setup.exe''] example_world)
       = Inr (str_upper (concat (map hex_byte (sha256 [1, 2, 3]))))
   \<and> length (str_upper (concat (map hex_byte (sha256 [1, 2, 3])))) = 64"
  using calculate_sha256_reference
          [of example_world "[''repo'', ''helpers'', ''temp'', ''old_Setup.exe'']" "[1, 2, 3]"]
  by (simp add: example_world_def)

subsection \<open>The manifest update\<close>

lemma json_at_setitem:
  "py_setitem d k v = Inr d' \<Longrightarrow>
   json_at d' (q # qs) = (if q = k then json_at v qs else json_at d (q # qs))"
  by (cases d) (auto simp: update_conv')

lemma json_at_getitem:
  "py_getitem d k = Inr a \<Longrightarrow> json_at d (k # qs) = json_at a qs"
  by (cases d) (auto split: option.splits)

lemma json_keys_setitem:
  "py_setitem d k v = Inr d' \<Longrightarrow>
   json_keys d' = (if k \<in> set (json_keys d) then json_keys d else json_keys d @ [k])"
  by (cases d; force simp: update_keys)

lemma py_setitem_object:
  "py_setitem d k v = Inr d' \<Longrightarrow> \<exists>kvs. d = JObject kvs \<and> d' = JObject (AList.update k v kvs)"
  by (cases d) auto

lemma py_getitem_iff:
  "(py_getitem d k = Inr a) = (json_at d [k] = Some a)"
  by (cases d) (auto split: option.splits)

lemma py_setitem3_Inr:
  assumes "py_setitem3 d k1 k2 k3 v = Inr d'"
  obtains a b b' a' where "py_getitem d k1 = Inr a" "py_getitem a k2 = Inr b"
    "py_setitem b k3 v = Inr b'" "py_setitem a k2 b' = Inr a'" "py_setitem d k1 a' = Inr d'"
  using assms unfolding py_setitem3_def by (auto split: sum.splits)

lemma json_at_setitem3_other:
  assumes "py_setitem3 d k1 k2 k3 v = Inr d'"
    and "\<not> prefix p [k1, k2, k3]" and "\<not> prefix [k1, k2, k3] p"
  shows "json_at d' p = json_at d p"
proof -
  from assms(1) obtain a b b' a' where
    g1: "py_getitem d k1 = Inr a" and g2: "py_getitem a k2 = Inr b" and
    s3: "py_setitem b k3 v = Inr b'" and s2: "py_setitem a k2 b' = Inr a'" and
    s1: "py_setitem d k1 a' = Inr d'"
    by (rule py_setitem3_Inr)
  from assms(2) obtain q1 r1 where p: "p = q1 # r1" by (cases p) auto
  show ?thesis
  proof (cases "q1 = k1")
    case False
    with s1 p show ?thesis by (simp add: json_at_setitem)
  next
    case k1: True
    with assms(2) p obtain q2 r2 where r1: "r1 = q2 # r2" by (cases r1) auto
    show ?thesis
    proof (cases "q2 = k2")
      case False
      with s1 s2 g1 p r1 k1 show ?thesis by (simp add: json_at_setitem json_at_getitem)
    next
      case k2: True
      with assms(2) p r1 k1 obtain q3 r3 where r2: "r2 = q3 # r3" by (cases r2) auto
      with assms(3) p r1 k1 k2 have "q3 \<noteq> k3" by auto
      with s1 s2 s3 g1 g2 p r1 r2 k1 k2 show ?thesis
        by (simp add: json_at_setitem json_at_getitem)
    qed
  qed
qed

lemma json_at_setitem3_target:
  assumes "py_setitem3 d k1 k2 k3 v = Inr d'"
  shows "json_at d' [k1, k2, k3] = Some v"
proof -
  from assms obtain a b b' a' where
    "py_getitem d k1 = Inr a" "py_getitem a k2 = Inr b"
    "py_setitem b k3 v = Inr b'" "py_setitem a k2 b' = Inr a'" "py_setitem d k1 a' = Inr d'"
    by (rule py_setitem3_Inr)
  then show ?thesis by (simp add: json_at_setitem)
qed

lemma py_setitem3_succeeds:
  assumes "json_at d [k1, k2] = Some (JObject b)"
  shows "\<exists>d'. py_setitem3 d k1 k2 k3 v = Inr d'"
proof -
  from assms obtain m where d: "d = JObject m" by (cases d) auto
  with assms obtain a where a: "map_of m k1 = Some a" "json_at a [k2] = Some (JObject b)"
    by (auto split: option.splits)
  then obtain am where am: "a = JObject am" by (cases a) auto
  with a have "map_of am k2 = Some (JObject b)" by (auto split: option.splits)
  with d a am show ?thesis by (simp add: py_setitem3_def)
qed


lemma py_getitem_key: "py_getitem d k = Inr a \<Longrightarrow> k \<in> set (json_keys d)"
  by (cases d) (auto split: option.splits dest: map_of_SomeD intro: rev_image_eqI)

lemma py_setitem3_structure:
  assumes "py_setitem3 d k1 k2 k3 v = Inr d'"
  shows "json_keys d' = json_keys d
    \<and> (\<exists>a a' b b'. json_at d [k1] = Some a \<and> json_at d' [k1] = Some a'
          \<and> json_keys a' = json_keys a
          \<and> json_at d [k1, k2] = Some b \<and> json_at d' [k1, k2] = Some b'
          \<and> json_keys b' = (if k3 \<in> set (json_keys b) then json_keys b else json_keys b @ [k3]))"
proof -
  from assms obtain a b b' a' where
    g1: "py_getitem d k1 = Inr a" and g2: "py_getitem a k2 = Inr b" and
    s3: "py_setitem b k3 v = Inr b'" and s2: "py_setitem a k2 b' = Inr a'" and
    s1: "py_setitem d k1 a' = Inr d'"
    by (rule py_setitem3_Inr)
  have "json_keys d' = json_keys d"
    using s1 py_getitem_key [OF g1] by (simp add: json_keys_setitem)
  moreover have "json_keys a' = json_keys a"
    using s2 py_getitem_key [OF g2] by (simp add: json_keys_setitem)
  moreover have "json_at d [k1] = Some a" "json_at d [k1, k2] = Some b"
    using g1 g2 by (simp_all add: json_at_getitem)
  moreover have "json_at d' [k1] = Some a'" "json_at d' [k1, k2] = Some b'"
    using s1 s2 by (simp_all add: json_at_setitem)
  ultimately show ?thesis
    using s3 by (simp add: json_keys_setitem)
qed

lemma py_setitem3_inner_object:
  assumes "py_setitem3 d k1 k2 k3 v = Inr d'"
  shows "\<exists>kvs. json_at d' [k1, k2] = Some (JObject kvs)"
proof -
  from assms obtain a b b' a' where
    s3: "py_setitem b k3 v = Inr b'" and s2: "py_setitem a k2 b' = Inr a'" and
    s1: "py_setitem d k1 a' = Inr d'"
    by (rule py_setitem3_Inr)
  from py_setitem_object [OF s3] obtain kvs where "b' = JObject kvs" by blast
  with s1 s2 show ?thesis by (simp add: json_at_setitem)
qed

lemma manifest_assignments_Inr:
  assumes "manifest_assignments d dv hv cs = Inr d'"
  obtains m1 m2 where "py_setitem d ''version'' (JString dv) = Inr m1"
    "py_setitem3 m1 ''architecture'' ''64bit'' ''url'' (JString (URL_TEMPLATE_format hv)) = Inr m2"
    "py_setitem3 m2 ''architecture'' ''64bit'' ''hash'' (JString (''sha256:'' @ cs)) = Inr d'"
  using assms unfolding manifest_assignments_def by (auto split: sum.splits)

lemma manifest_assignments_other:
  assumes "manifest_assignments d dv hv cs = Inr d'" and "\<not> touched p"
  shows "json_at d' p = json_at d p"
proof -
  from assms(1) obtain m1 m2 where
    s1: "py_setitem d ''version'' (JString dv) = Inr m1" and
    s2: "py_setitem3 m1 ''architecture'' ''64bit'' ''url'' (JString (URL_TEMPLATE_format hv)) = Inr m2" and
    s3: "py_setitem3 m2 ''architecture'' ''64bit'' ''hash'' (JString (''sha256:'' @ cs)) = Inr d'"
    by (rule manifest_assignments_Inr)
  from assms(2) have
    n1: "\<not> prefix p [''version'']" "\<not> prefix [''version''] p" and
    n2: "\<not> prefix p [''architecture'', ''64bit'', ''url'']"
        "\<not> prefix [''architecture'', ''64bit'', ''url''] p" and
    n3: "\<not> prefix p [''architecture'', ''64bit'', ''hash'']"
        "\<not> prefix [''architecture'', ''64bit'', ''hash''] p"
    by (simp_all add: touched_def target_fields_def)
  from n1 obtain q qs where p: "p = q # qs" and q: "q \<noteq> ''version''"
    by (cases p) auto
  have "json_at d' p = json_at m2 p"
    using s3 n3 by (rule json_at_setitem3_other)
  also have "\<dots> = json_at m1 p"
    using s2 n2 by (rule json_at_setitem3_other)
  also have "\<dots> = json_at d p"
    using s1 p q by (simp add: json_at_setitem)
  finally show ?thesis .
qed

lemma manifest_assignments_targets:
  assumes "manifest_assignments d dv hv cs = Inr d'"
  shows "json_at d' [''version''] = Some (JString dv)"
    and "json_at d' [''architecture'', ''64bit'', ''url''] = Some (JString (URL_TEMPLATE_format hv))"
    and "json_at d' [''architecture'', ''64bit'', ''hash''] = Some (JString (''sha256:'' @ cs))"
proof -
  from assms obtain m1 m2 where
    s1: "py_setitem d ''version'' (JString dv) = Inr m1" and
    s2: "py_setitem3 m1 ''architecture'' ''64bit'' ''url'' (JString (URL_TEMPLATE_format hv)) = Inr m2" and
    s3: "py_setitem3 m2 ''architecture'' ''64bit'' ''hash'' (JString (''sha256:'' @ cs)) = Inr d'"
    by (rule manifest_assignments_Inr)
  have v1: "json_at m1 [''version''] = Some (JString dv)"
    using s1 by (simp add: json_at_setitem)
  have "json_at d' [''version''] = json_at m2 [''version'']"
    using s3 by (rule json_at_setitem3_other) simp_all
  also have "\<dots> = json_at m1 [''version'']"
    using s2 by (rule json_at_setitem3_other) simp_all
  finally show "json_at d' [''version''] = Some (JString dv)"
    using v1 by simp
  have "json_at d' [''architecture'', ''64bit'', ''url''] = json_at m2 [''architecture'', ''64bit'', ''url'']"
    using s3 by (rule json_at_setitem3_other) simp_all
  then show "json_at d' [''architecture'', ''64bit'', ''url''] = Some (JString (URL_TEMPLATE_format hv))"
    using json_at_setitem3_target [OF s2] by simp
  show "json_at d' [''architecture'', ''64bit'', ''hash''] = Some (JString (''sha256:'' @ cs))"
    using s3 by (rule json_at_setitem3_target)
qed

lemma manifest_assignments_keys:
  assumes "manifest_assignments d dv hv cs = Inr d'"
  shows "json_keys d' = json_keys d @ filter (\<lambda>k. k \<notin> set (json_keys d)) [''version'']"
    and "map_option json_keys (json_at d' [''architecture''])
         = map_option json_keys (json_at d [''architecture''])"
    and "\<exists>b b'. json_at d [''architecture'', ''64bit''] = Some b
           \<and> json_at d' [''architecture'', ''64bit''] = Some b'
           \<and> json_keys b' = json_keys b @ filter (\<lambda>k. k \<notin> set (json_keys b)) [''url'', ''hash'']"
proof -
  from assms obtain m1 m2 where
    s1: "py_setitem d ''version'' (JString dv) = Inr m1" and
    s2: "py_setitem3 m1 ''architecture'' ''64bit'' ''url'' (JString (URL_TEMPLATE_format hv)) = Inr m2" and
    s3: "py_setitem3 m2 ''architecture'' ''64bit'' ''hash'' (JString (''sha256:'' @ cs)) = Inr d'"
    by (rule manifest_assignments_Inr)
  have same: "json_at m1 (''architecture'' # qs) = json_at d (''architecture'' # qs)" for qs
    using s1 by (simp add: json_at_setitem)
  from py_setitem3_structure [OF s2] obtain a1 a2 b1 b2 where
    t2: "json_keys m2 = json_keys m1" "json_at m1 [''architecture''] = Some a1"
      "json_at m2 [''architecture''] = Some a2" "json_keys a2 = json_keys a1"
      "json_at m1 [''architecture'', ''64bit''] = Some b1"
      "json_at m2 [''architecture'', ''64bit''] = Some b2"
      "json_keys b2 = (if ''url'' \<in> set (json_keys b1) then json_keys b1 else json_keys b1 @ [''url''])"
    by blast
  from py_setitem3_structure [OF s3] obtain a3 a4 b3 b4 where
    t3: "json_keys d' = json_keys m2" "json_at m2 [''architecture''] = Some a3"
      "json_at d' [''architecture''] = Some a4" "json_keys a4 = json_keys a3"
      "json_at m2 [''architecture'', ''64bit''] = Some b3"
      "json_at d' [''architecture'', ''64bit''] = Some b4"
      "json_keys b4 = (if ''hash'' \<in> set (json_keys b3) then json_keys b3 else json_keys b3 @ [''hash''])"
    by blast
  show "json_keys d' = json_keys d @ filter (\<lambda>k. k \<notin> set (json_keys d)) [''version'']"
    using s1 t2(1) t3(1) by (simp add: json_keys_setitem)
  show "map_option json_keys (json_at d' [''architecture''])
         = map_option json_keys (json_at d [''architecture''])"
    using t2 t3 same [of "[]"] by simp
  have "json_at d [''architecture'', ''64bit''] = Some b1"
    using t2 same [of "[''64bit'']"] by simp
  moreover have "json_keys b4 = json_keys b1 @ filter (\<lambda>k. k \<notin> set (json_keys b1)) [''url'', ''hash'']"
    using t2 t3 by auto
  ultimately show "\<exists>b b'. json_at d [''architecture'', ''64bit''] = Some b
           \<and> json_at d' [''architecture'', ''64bit''] = Some b'
           \<and> json_keys b' = json_keys b @ filter (\<lambda>k. k \<notin> set (json_keys b)) [''url'', ''hash'']"
    using t3 by blast
qed

lemma manifest_assignments_succeeds:
  assumes "json_at d [''architecture'', ''64bit''] = Some (JObject b)"
  shows "\<exists>d'. manifest_assignments d dv hv cs = Inr d'"
proof -
  from assms obtain m where d: "d = JObject m" by (cases d) auto
  then obtain m1 where s1: "py_setitem d ''version'' (JString dv) = Inr m1" by simp
  then have "json_at m1 [''architecture'', ''64bit''] = Some (JObject b)"
    using assms by (simp add: json_at_setitem)
  from py_setitem3_succeeds [OF this] obtain m2 where
    s2: "py_setitem3 m1 ''architecture'' ''64bit'' ''url'' (JString (URL_TEMPLATE_format hv)) = Inr m2"
    by blast
  from py_setitem3_inner_object [OF s2] obtain kvs where
    "json_at m2 [''architecture'', ''64bit''] = Some (JObject kvs)" by blast
  from py_setitem3_succeeds [OF this] obtain d' where
    "py_setitem3 m2 ''architecture'' ''64bit'' ''hash'' (JString (''sha256:'' @ cs)) = Inr d'"
    by blast
  with s1 s2 show ?thesis by (simp add: manifest_assignments_def)
qed


lemma py_setitem_Inl: "py_setitem d k v = Inl e \<Longrightarrow> e = TypeError"
  by (cases d) simp_all

lemma py_getitem_Inl: "py_getitem d k = Inl e \<Longrightarrow> e = TypeError \<or> e = KeyError k"
  by (cases d) (auto split: option.splits)

lemma py_setitem3_Inl:
  "py_setitem3 d k1 k2 k3 v = Inl e \<Longrightarrow> e = TypeError \<or> (\<exists>k. e = KeyError k)"
  unfolding py_setitem3_def
  by (auto split: sum.splits dest: py_setitem_Inl py_getitem_Inl)

lemma manifest_assignments_Inl:
  "manifest_assignments d dv hv cs = Inl e \<Longrightarrow> e = TypeError \<or> (\<exists>k. e = KeyError k)"
  unfolding manifest_assignments_def
  by (auto split: sum.splits dest: py_setitem_Inl py_setitem3_Inl)

lemma update_manifest_cases:
  assumes "files w manifest_path = Some raw" and "json_load env raw = Some manifest"
  shows "update_manifest env manifest_path dv hv cs w =
     (case manifest_assignments manifest dv hv cs of
        Inl e \<Rightarrow> (Inl e, emit (Print Updating_manifest) w)
      | Inr manifest' \<Rightarrow>
          (case json_dump_error env manifest' of
             Some fragment \<Rightarrow>
               (Inl UnicodeEncodeError,
                \<lparr>files = (files w)(manifest_path \<mapsto> fragment),
                 trace = trace w @ [Print Updating_manifest, Write_file manifest_path]\<rparr>)
           | None \<Rightarrow>
               (Inr (),
                \<lparr>files = (files w)(manifest_path \<mapsto> json_dump env manifest'),
                 trace = trace w @ [Print Updating_manifest, Write_file manifest_path]\<rparr>)))"
  using assms
  by (simp add: update_manifest_def emit_def Let_def split: sum.splits option.splits)

text \<open>
  Claim C1, as the code has it. Let the manifest file hold a document that
  \<open>json.load\<close> parses. Whatever \<open>update_manifest\<close> does, every other file is as
  before. When it returns, the file holds the complete dump of the document the three
  assignments give, and in that document every field path that is not touched by the
  three target fields has the value it had; the top-level dict has the keys it had, in
  the same order (with \<open>version\<close> appended when it was missing), \<open>architecture\<close> has
  the same keys in the same order, and \<open>architecture.64bit\<close> has the same keys in the
  same order (with \<open>url\<close> and \<open>hash\<close> appended when missing). When it raises before
  the file is opened for writing (the assignments fail), the manifest file is as before.
  When the dump raises (\<open>UnicodeEncodeError\<close>), the file holds only the fragment
  written before that.
\<close>

theorem update_manifest_preserves_other_fields:
  assumes "files w manifest_path = Some raw" and "json_load env raw = Some manifest"
    and "update_manifest env manifest_path dotted_version hyphen_version checksum w = (r, w')"
  shows "(\<forall>p. p \<noteq> manifest_path \<longrightarrow> files w' p = files w p)
    \<and> (case r of
          Inl e \<Rightarrow>
            if e = UnicodeEncodeError
            then (\<exists>manifest' fragment.
                    manifest_assignments manifest dotted_version hyphen_version checksum
                      = Inr manifest'
                  \<and> json_dump_error env manifest' = Some fragment
                  \<and> files w' manifest_path = Some fragment)
            else files w' manifest_path = Some raw
        | Inr _ \<Rightarrow>
            (\<exists>manifest' b b'.
               manifest_assignments manifest dotted_version hyphen_version checksum
                 = Inr manifest'
             \<and> json_dump_error env manifest' = None
             \<and> files w' manifest_path = Some (json_dump env manifest')
             \<and> (\<forall>field. \<not> touched field \<longrightarrow> json_at manifest' field = json_at manifest field)
             \<and> json_keys manifest'
                 = json_keys manifest @ filter (\<lambda>k. k \<notin> set (json_keys manifest)) [''version'']
             \<and> map_option json_keys (json_at manifest' [''architecture''])
                 = map_option json_keys (json_at manifest [''architecture''])
             \<and> json_at manifest [''architecture'', ''64bit''] = Some b
             \<and> json_at manifest' [''architecture'', ''64bit''] = Some b'
             \<and> json_keys b' = json_keys b @ filter (\<lambda>k. k \<notin> set (json_keys b)) [''url'', ''hash'']))"
proof (cases "manifest_assignments manifest dotted_version hyphen_version checksum")
  case (Inl e)
  from manifest_assignments_Inl [OF Inl] have "e \<noteq> UnicodeEncodeError" by auto
  with assms Inl show ?thesis
    by (auto simp: update_manifest_cases emit_def)
next
  case (Inr manifest')
  show ?thesis
  proof (cases "json_dump_error env manifest'")
    case (Some fragment)
    with assms Inr have r: "r = Inl UnicodeEncodeError"
      and w': "w' = \<lparr>files = (files w)(manifest_path \<mapsto> fragment),
                     trace = trace w @ [Print Updating_manifest, Write_file manifest_path]\<rparr>"
      by (auto simp: update_manifest_cases)
    have "\<exists>manifest' fragment.
                    manifest_assignments manifest dotted_version hyphen_version checksum
                      = Inr manifest'
                  \<and> json_dump_error env manifest' = Some fragment
                  \<and> files w' manifest_path = Some fragment"
      using Inr Some unfolding w' by (intro exI [where x = manifest'] exI [where x = fragment]) simp
    moreover have "\<forall>p. p \<noteq> manifest_path \<longrightarrow> files w' p = files w p"
      unfolding w' by simp
    ultimately show ?thesis
      unfolding r by simp
  next
    case None
    with assms Inr have r: "r = Inr ()"
      and w': "w' = \<lparr>files = (files w)(manifest_path \<mapsto> json_dump env manifest'),
                     trace = trace w @ [Print Updating_manifest, Write_file manifest_path]\<rparr>"
      by (auto simp: update_manifest_cases)
    from manifest_assignments_keys(3) [OF Inr] obtain b b' where
      b: "json_at manifest [''architecture'', ''64bit''] = Some b"
         "json_at manifest' [''architecture'', ''64bit''] = Some b'"
         "json_keys b' = json_keys b @ filter (\<lambda>k. k \<notin> set (json_keys b)) [''url'', ''hash'']"
      by blast
    have "\<forall>field. \<not> touched field \<longrightarrow> json_at manifest' field = json_at manifest field"
      using manifest_assignments_other [OF Inr] by blast
    with b manifest_assignments_keys(1,2) [OF Inr] Inr None have
      "\<exists>manifest' b b'.
               manifest_assignments manifest dotted_version hyphen_version checksum
                 = Inr manifest'
             \<and> json_dump_error env manifest' = None
             \<and> files w' manifest_path = Some (json_dump env manifest')
             \<and> (\<forall>field. \<not> touched field \<longrightarrow> json_at manifest' field = json_at manifest field)
             \<and> json_keys manifest'
                 = json_keys manifest @ filter (\<lambda>k. k \<notin> set (json_keys manifest)) [''version'']
             \<and> map_option json_keys (json_at manifest' [''architecture''])
                 = map_option json_keys (json_at manifest [''architecture''])
             \<and> json_at manifest [''architecture'', ''64bit''] = Some b
             \<and> json_at manifest' [''architecture'', ''64bit''] = Some b'
             \<and> json_keys b' = json_keys b @ filter (\<lambda>k. k \<notin> set (json_keys b)) [''url'', ''hash'']"
      unfolding w' by (intro exI [where x = manifest'] exI [where x = b] exI [where x = b']) simp
    moreover have "\<forall>p. p \<noteq> manifest_path \<longrightarrow> files w' p = files w p"
      unfolding w' by simp
    ultimately show ?thesis
      unfolding r by simp
  qed
qed

theorem update_manifest_preserves_other_fields_witness:
  "files example_world [''repo'', ''bucket'', ''firestorm-beta.json''] = Some [123, 125]
   \<and> json_load example_env [123, 125] = Some example_manifest
   \<and> fst (update_manifest example_env [''repo'', ''bucket'', ''firestorm-beta.json'']
              ''7.2.0.2'' ''7-2-0-2'' ''AB'' example_world) = Inr ()
   \<and> files (snd (update_manifest example_env [''repo'', ''bucket'', ''firestorm-beta.json'']
                    ''7.2.0.2'' ''7-2-0-2'' ''AB'' example_world))
         [''repo'', ''helpers'', ''temp'', ''old_Setup.exe'']
       = Some [1, 2, 3]
   \<and> (\<exists>manifest'.
          files (snd (update_manifest example_env [''repo'', ''bucket'', ''firestorm-beta.json'']
                        ''7.2.0.2'' ''7-2-0-2'' ''AB'' example_world))
            [''repo'', ''bucket'', ''firestorm-beta.json'']
          = Some (json_dump example_env manifest')
        \<and> json_at manifest' [''other''] = Some (JString ''keep''))"
proof -
  define u where "u = update_manifest example_env [''repo'', ''bucket'', ''firestorm-beta.json'']
                        ''7.2.0.2'' ''7-2-0-2'' ''AB'' example_world"
  have h1: "files example_world [''repo'', ''bucket'', ''firestorm-beta.json''] = Some [123, 125]"
    by (simp add: example_world_def)
  have h2: "json_load example_env [123, 125] = Some example_manifest"
    by (simp add: example_env_def)
  have h3: "update_manifest example_env [''repo'', ''bucket'', ''firestorm-beta.json'']
              ''7.2.0.2'' ''7-2-0-2'' ''AB'' example_world = (fst u, snd u)"
    by (simp add: u_def)
  have h4: "fst u = Inr ()"
    unfolding u_def update_manifest_cases [OF h1 h2]
    by (simp add: manifest_assignments_def py_setitem3_def example_manifest_def example_env_def)
  note t = update_manifest_preserves_other_fields [OF h1 h2 h3]
  from t have "\<forall>p. p \<noteq> [''repo'', ''bucket'', ''firestorm-beta.json''] \<longrightarrow>
      files (snd u) p = files example_world p"
    by (rule conjunct1)
  then have "files (snd u) [''repo'', ''helpers'', ''temp'', ''old_Setup.exe'']
      = files example_world [''repo'', ''helpers'', ''temp'', ''old_Setup.exe'']"
    by simp
  then have other_file: "files (snd u) [''repo'', ''helpers'', ''temp'', ''old_Setup.exe'']
      = Some [1, 2, 3]"
    by (simp add: example_world_def)
  from t [THEN conjunct2] h4 obtain manifest' where
    f: "files (snd u) [''repo'', ''bucket'', ''firestorm-beta.json'']
        = Some (json_dump example_env manifest')" and
    o: "\<forall>field. \<not> touched field \<longrightarrow> json_at manifest' field = json_at example_manifest field"
    by auto
  have "\<not> touched [''other'']"
    by (simp add: touched_def target_fields_def)
  with o have "json_at manifest' [''other''] = json_at example_manifest [''other'']"
    by blast
  then have "json_at manifest' [''other''] = Some (JString ''keep'')"
    by (simp add: example_manifest_def)
  with f have "\<exists>manifest'. files (snd u) [''repo'', ''bucket'', ''firestorm-beta.json'']
          = Some (json_dump example_env manifest')
        \<and> json_at manifest' [''other''] = Some (JString ''keep'')"
    by blast
  with h1 h2 h4 other_file show ?thesis
    unfolding u_def by simp
qed

text \<open>
  The claim as stated does not hold where the dump raises: the update then ends with an
  exception after the manifest has been emptied, and what is left in the file no longer
  parses, so the field \<open>other\<close> is lost with the rest.
\<close>

theorem update_manifest_preserves_other_fields_counterexample:
  "files example_world_surrogate [''repo'', ''bucket'', ''firestorm-beta.json'']
     = Some [123, 34, 125]
   \<and> json_load example_env_bad_dump [123, 34, 125] = Some example_manifest_surrogate
   \<and> json_at example_manifest_surrogate [''other''] = Some (JString ''keep'')
   \<and> update_manifest example_env_bad_dump [''repo'', ''bucket'', ''firestorm-beta.json'']
         ''7.2.0.2'' ''7-2-0-2'' ''AB'' example_world_surrogate
       = (Inl UnicodeEncodeError,
          \<lparr>files = [[''repo'', ''bucket'', ''firestorm-beta.json''] \<mapsto> [123, 10]],
           trace = [Print Updating_manifest,
                    Write_file [''repo'', ''bucket'', ''firestorm-beta.json'']]\<rparr>)
   \<and> json_load example_env_bad_dump [123, 10] = None"
proof -
  have h1: "files example_world_surrogate [''repo'', ''bucket'', ''firestorm-beta.json'']
     = Some [123, 34, 125]"
    by (simp add: example_world_surrogate_def)
  have h2: "json_load example_env_bad_dump [123, 34, 125] = Some example_manifest_surrogate"
    by (simp add: example_env_bad_dump_def)
  have h3: "json_at example_manifest_surrogate [''other''] = Some (JString ''keep'')"
    by (simp add: example_manifest_surrogate_def)
  have h4: "update_manifest example_env_bad_dump [''repo'', ''bucket'', ''firestorm-beta.json'']
         ''7.2.0.2'' ''7-2-0-2'' ''AB'' example_world_surrogate
       = (Inl UnicodeEncodeError,
          \<lparr>files = [[''repo'', ''bucket'', ''firestorm-beta.json''] \<mapsto> [123, 10]],
           trace = [Print Updating_manifest,
                    Write_file [''repo'', ''bucket'', ''firestorm-beta.json'']]\<rparr>)"
    unfolding update_manifest_cases [OF h1 h2]
    by (simp add: manifest_assignments_def py_setitem3_def example_manifest_surrogate_def
        example_env_bad_dump_def example_world_surrogate_def)
  have h5: "json_load example_env_bad_dump [123, 10] = None"
    by (simp add: example_env_bad_dump_def)
  from h1 h2 h3 h4 h5 show ?thesis
    by (intro conjI)
qed

text \<open>
  Claim C2, as the code has it. When the manifest file exists, parses, and holds a dict
  at \<open>architecture.64bit\<close>, the three assignments succeed and give a document whose
  \<open>version\<close> is the dotted string, whose \<open>architecture.64bit.url\<close> is the URL template
  filled with the hyphenated string, and whose \<open>architecture.64bit.hash\<close> is
  \<open>sha256:\<close> followed by the checksum. When the dump of that document completes,
  \<open>update_manifest\<close> returns, having opened the file at the same path for writing and
  left the complete dump in it. When the dump raises, \<open>update_manifest\<close> raises
  \<open>UnicodeEncodeError\<close>, and the file at that path holds the fragment.
\<close>

theorem update_manifest_sets_fields:
  assumes "files w manifest_path = Some raw" and "json_load env raw = Some manifest"
    and "json_at manifest [''architecture'', ''64bit''] = Some (JObject b)"
  shows "\<exists>manifest'.
           manifest_assignments manifest dotted_version hyphen_version checksum = Inr manifest'
         \<and> json_at manifest' [''version''] = Some (JString dotted_version)
         \<and> json_at manifest' [''architecture'', ''64bit'', ''url'']
             = Some (JString (URL_TEMPLATE_format hyphen_version))
         \<and> json_at manifest' [''architecture'', ''64bit'', ''hash'']
             = Some (JString (''sha256:'' @ checksum))
         \<and> (json_dump_error env manifest' = None \<longrightarrow>
               update_manifest env manifest_path dotted_version hyphen_version checksum w
                 = (Inr (), \<lparr>files = (files w)(manifest_path \<mapsto> json_dump env manifest'),
                             trace = trace w @ [Print Updating_manifest,
                                                Write_file manifest_path]\<rparr>))
         \<and> (\<forall>fragment. json_dump_error env manifest' = Some fragment \<longrightarrow>
               update_manifest env manifest_path dotted_version hyphen_version checksum w
                 = (Inl UnicodeEncodeError,
                    \<lparr>files = (files w)(manifest_path \<mapsto> fragment),
                     trace = trace w @ [Print Updating_manifest,
                                        Write_file manifest_path]\<rparr>))"
proof -
  from manifest_assignments_succeeds [OF assms(3)] obtain manifest' where
    m: "manifest_assignments manifest dotted_version hyphen_version checksum = Inr manifest'"
    by blast
  have "json_dump_error env manifest' = None \<longrightarrow>
               update_manifest env manifest_path dotted_version hyphen_version checksum w
                 = (Inr (), \<lparr>files = (files w)(manifest_path \<mapsto> json_dump env manifest'),
                             trace = trace w @ [Print Updating_manifest,
                                                Write_file manifest_path]\<rparr>)"
    using m by (simp add: update_manifest_cases [OF assms(1,2)])
  moreover have "\<forall>fragment. json_dump_error env manifest' = Some fragment \<longrightarrow>
               update_manifest env manifest_path dotted_version hyphen_version checksum w
                 = (Inl UnicodeEncodeError,
                    \<lparr>files = (files w)(manifest_path \<mapsto> fragment),
                     trace = trace w @ [Print Updating_manifest,
                                        Write_file manifest_path]\<rparr>)"
    using m by (simp add: update_manifest_cases [OF assms(1,2)])
  ultimately show ?thesis
    using m manifest_assignments_targets [OF m] by (intro exI [where x = manifest']) simp
qed

theorem update_manifest_sets_fields_witness:
  "files example_world [''repo'', ''bucket'', ''firestorm-beta.json''] = Some [123, 125]
   \<and> json_load example_env [123, 125] = Some example_manifest
   \<and> json_at example_manifest [''architecture'', ''64bit'']
       = Some (JObject [(''url'', JString ''old''), (''hash'', JString ''sha256:AAA'')])
   \<and> (\<exists>manifest'.
          json_dump_error example_env manifest' = None
        \<and> update_manifest example_env [''repo'', ''bucket'', ''firestorm-beta.json'']
             ''7.2.0.2'' ''7-2-0-2'' ''AB'' example_world
           = (Inr (),
              \<lparr>files = (files example_world)
                         ([''repo'', ''bucket'', ''firestorm-beta.json'']
                            \<mapsto> json_dump example_env manifest'),
               trace = trace example_world
                         @ [Print Updating_manifest,
                            Write_file [''repo'', ''bucket'', ''firestorm-beta.json'']]\<rparr>)
        \<and> json_at manifest' [''version''] = Some (JString ''7.2.0.2''))"
proof -
  have h1: "files example_world [''repo'', ''bucket'', ''firestorm-beta.json''] = Some [123, 125]"
    by (simp add: example_world_def)
  have h2: "json_load example_env [123, 125] = Some example_manifest"
    by (simp add: example_env_def)
  have h3: "json_at example_manifest [''architecture'', ''64bit'']
       = Some (JObject [(''url'', JString ''old''), (''hash'', JString ''sha256:AAA'')])"
    by (simp add: example_manifest_def)
  from update_manifest_sets_fields
         [OF h1 h2 h3, where dotted_version = "''7.2.0.2''" and hyphen_version = "''7-2-0-2''"
            and checksum = "''AB''"]
  obtain manifest' where
    v: "json_at manifest' [''version''] = Some (JString ''7.2.0.2'')" and
    i: "json_dump_error example_env manifest' = None \<longrightarrow>
        update_manifest example_env [''repo'', ''bucket'', ''firestorm-beta.json'']
             ''7.2.0.2'' ''7-2-0-2'' ''AB'' example_world
           = (Inr (),
              \<lparr>files = (files example_world)
                         ([''repo'', ''bucket'', ''firestorm-beta.json'']
                            \<mapsto> json_dump example_env manifest'),
               trace = trace example_world
                         @ [Print Updating_manifest,
                            Write_file [''repo'', ''bucket'', ''firestorm-beta.json'']]\<rparr>)"
    by (elim exE conjE)
  have d: "json_dump_error example_env manifest' = None"
    by (simp add: example_env_def)
  from i d have u: "update_manifest example_env [''repo'', ''bucket'', ''firestorm-beta.json'']
             ''7.2.0.2'' ''7-2-0-2'' ''AB'' example_world
           = (Inr (),
              \<lparr>files = (files example_world)
                         ([''repo'', ''bucket'', ''firestorm-beta.json'']
                            \<mapsto> json_dump example_env manifest'),
               trace = trace example_world
                         @ [Print Updating_manifest,
                            Write_file [''repo'', ''bucket'', ''firestorm-beta.json'']]\<rparr>)"
    by (rule mp)
  from d u v have "\<exists>manifest'.
          json_dump_error example_env manifest' = None
        \<and> update_manifest example_env [''repo'', ''bucket'', ''firestorm-beta.json'']
             ''7.2.0.2'' ''7-2-0-2'' ''AB'' example_world
           = (Inr (),
              \<lparr>files = (files example_world)
                         ([''repo'', ''bucket'', ''firestorm-beta.json'']
                            \<mapsto> json_dump example_env manifest'),
               trace = trace example_world
                         @ [Print Updating_manifest,
                            Write_file [''repo'', ''bucket'', ''firestorm-beta.json'']]\<rparr>)
        \<and> json_at manifest' [''version''] = Some (JString ''7.2.0.2'')"
    by (intro exI [where x = manifest'] conjI)
  with h1 h2 h3 show ?thesis
    by (intro conjI)
qed

text \<open>
  The claim as stated does not hold for every manifest with a dict at
  \<open>architecture.64bit\<close>: where the dump raises, the update does not return, and the
  file at the path holds a fragment, not a document with the three fields.
\<close>

theorem update_manifest_sets_fields_counterexample:
  "files example_world_surrogate [''repo'', ''bucket'', ''firestorm-beta.json'']
     = Some [123, 34, 125]
   \<and> json_load example_env_bad_dump [123, 34, 125] = Some example_manifest_surrogate
   \<and> json_at example_manifest_surrogate [''architecture'', ''64bit'']
       = Some (JObject [(''url'', JString ''old''), (''hash'', JString ''sha256:AAA'')])
   \<and> fst (update_manifest example_env_bad_dump [''repo'', ''bucket'', ''firestorm-beta.json'']
              ''7.2.0.2'' ''7-2-0-2'' ''AB'' example_world_surrogate)
       = Inl UnicodeEncodeError
   \<and> files (snd (update_manifest example_env_bad_dump
                    [''repo'', ''bucket'', ''firestorm-beta.json'']
                    ''7.2.0.2'' ''7-2-0-2'' ''AB'' example_world_surrogate))
         [''repo'', ''bucket'', ''firestorm-beta.json'']
       = Some [123, 10]"
proof -
  have h1: "files example_world_surrogate [''repo'', ''bucket'', ''firestorm-beta.json'']
     = Some [123, 34, 125]"
    by (simp add: example_world_surrogate_def)
  have h2: "json_load example_env_bad_dump [123, 34, 125] = Some example_manifest_surrogate"
    by (simp add: example_env_bad_dump_def)
  have h3: "json_at example_manifest_surrogate [''architecture'', ''64bit'']
       = Some (JObject [(''url'', JString ''old''), (''hash'', JString ''sha256:AAA'')])"
    by (simp add: example_manifest_surrogate_def)
  have h4: "update_manifest example_env_bad_dump [''repo'', ''bucket'', ''firestorm-beta.json'']
         ''7.2.0.2'' ''7-2-0-2'' ''AB'' example_world_surrogate
       = (Inl UnicodeEncodeError,
          \<lparr>files = [[''repo'', ''bucket'', ''firestorm-beta.json''] \<mapsto> [123, 10]],
           trace = [Print Updating_manifest,
                    Write_file [''repo'', ''bucket'', ''firestorm-beta.json'']]\<rparr>)"
    unfolding update_manifest_cases [OF h1 h2]
    by (simp add: manifest_assignments_def py_setitem3_def example_manifest_surrogate_def
        example_env_bad_dump_def example_world_surrogate_def)
  from h1 h2 h3 show ?thesis
    unfolding h4 by simp
qed

subsection \<open>The download\<close>

lemma get_checked_cases:
  "get_checked env url =
     (case http_get env url of
        Transport_failure e \<Rightarrow> Inl (RequestException e)
      | Response r \<Rightarrow>
          if 400 \<le> status_code r \<and> status_code r < 600 then Inl (HTTPError (status_code r))
          else Inr r)"
  by (simp add: get_checked_def raise_for_status_def split: http_result.splits)

lemma download_installer_transport:
  assumes "http_get env (URL_TEMPLATE_format hv) = Transport_failure e"
  shows "download_installer env hv dest w =
     (Inl (SystemExit 1),
      \<lparr>files = files w,
       trace = trace w @ [Print (Downloading (URL_TEMPLATE_format hv)),
                          Http_get (URL_TEMPLATE_format hv), Print (Network_error e)]\<rparr>)"
  using assms by (simp add: download_installer_def get_checked_cases emit_def Let_def)

lemma download_installer_status:
  assumes "http_get env (URL_TEMPLATE_format hv) = Response r"
    and "400 \<le> status_code r" and "status_code r < 600"
  shows "download_installer env hv dest w =
     (Inl (SystemExit 1),
      \<lparr>files = files w,
       trace = trace w @ [Print (Downloading (URL_TEMPLATE_format hv)),
                          Http_get (URL_TEMPLATE_format hv),
                          Print (if status_code r = 404
                                 then Version_not_found (URL_TEMPLATE_format hv)
                                 else HTTP_error (status_code r))]\<rparr>)"
  using assms by (simp add: download_installer_def get_checked_cases emit_def Let_def)

lemma download_installer_ok:
  assumes "http_get env (URL_TEMPLATE_format hv) = Response r"
    and "\<not> (400 \<le> status_code r \<and> status_code r < 600)"
  shows "download_installer env hv dest w =
     ((case body_error r of Some e \<Rightarrow> Inl (RequestException e)
       | None \<Rightarrow> Inr (dest @ [url_basename (URL_TEMPLATE_format hv)])),
      \<lparr>files = (files w)(dest @ [url_basename (URL_TEMPLATE_format hv)]
                   \<mapsto> write_chunks (body_chunks r) []),
       trace = trace w @ [Print (Downloading (URL_TEMPLATE_format hv)),
                          Http_get (URL_TEMPLATE_format hv),
                          Write_file (dest @ [url_basename (URL_TEMPLATE_format hv)])]\<rparr>)"
  using assms by (auto simp: download_installer_def get_checked_cases emit_def Let_def split: option.splits)

lemma write_chunks_concat: "write_chunks chunks f = f @ concat chunks"
  by (induction chunks arbitrary: f) simp_all

text \<open>
  Claim C10. When the request fails in transport, or the status is from 400 to 599,
  \<open>download_installer\<close> ends in \<open>sys.exit(1)\<close> after the request and one diagnostic
  line, and the files are as before: the destination was never opened. Conversely, when
  a file has changed or been opened for writing, the request was answered with a status
  that passed the check, the destination was opened after the request, and it is the only
  file that changed; it holds the chunks received.
\<close>

theorem download_installer_no_file_on_failure:
  assumes "download_installer env hv dest w = (res, w')"
  shows "((\<exists>e. http_get env (URL_TEMPLATE_format hv) = Transport_failure e)
          \<or> (\<exists>r. http_get env (URL_TEMPLATE_format hv) = Response r
                 \<and> 400 \<le> status_code r \<and> status_code r < 600)
          \<longrightarrow> res = Inl (SystemExit 1) \<and> files w' = files w
              \<and> (\<exists>m. trace w' = trace w @ [Print (Downloading (URL_TEMPLATE_format hv)),
                                            Http_get (URL_TEMPLATE_format hv), Print m]))
     \<and> (files w' \<noteq> files w \<or> (\<exists>p. Write_file p \<in> set (trace w') - set (trace w))
          \<longrightarrow> (\<exists>r. http_get env (URL_TEMPLATE_format hv) = Response r
                 \<and> \<not> (400 \<le> status_code r \<and> status_code r < 600)
                 \<and> trace w' = trace w @ [Print (Downloading (URL_TEMPLATE_format hv)),
                                          Http_get (URL_TEMPLATE_format hv),
                                          Write_file (dest @ [url_basename (URL_TEMPLATE_format hv)])]
                 \<and> files w' = (files w)(dest @ [url_basename (URL_TEMPLATE_format hv)]
                                  \<mapsto> concat (body_chunks r))))"
proof (cases "http_get env (URL_TEMPLATE_format hv)")
  case (Transport_failure e)
  from assms show ?thesis
    unfolding download_installer_transport [OF Transport_failure] using Transport_failure
    by auto
next
  case (Response r)
  show ?thesis
  proof (cases "400 \<le> status_code r \<and> status_code r < 600")
    case True
    then have b: "400 \<le> status_code r" "status_code r < 600" by simp_all
    from assms show ?thesis
      unfolding download_installer_status [OF Response b] using Response True
      by auto
  next
    case False
    from assms show ?thesis
      unfolding download_installer_ok [OF Response False] using Response False
      by (auto simp: write_chunks_concat)
  qed
qed


theorem download_installer_no_file_on_failure_witness:
  "(http_get example_env_404 (URL_TEMPLATE_format ''7-2-0-2'')
      = Response \<lparr>status_code = 404, body_chunks = [], body_error = None\<rparr>
    \<and> fst (download_installer example_env_404 ''7-2-0-2'' [''repo'', ''helpers'', ''temp'']
              example_world) = Inl (SystemExit 1)
    \<and> files (snd (download_installer example_env_404 ''7-2-0-2'' [''repo'', ''helpers'', ''temp'']
                     example_world)) = files example_world)
   \<and> (Write_file ([''repo'', ''helpers'', ''temp'']
                    @ [url_basename (URL_TEMPLATE_format ''7-2-0-2'')])
         \<in> set (trace (snd (download_installer example_env ''7-2-0-2''
                               [''repo'', ''helpers'', ''temp''] example_world)))
             - set (trace example_world)
       \<and> files (snd (download_installer example_env ''7-2-0-2'' [''repo'', ''helpers'', ''temp'']
                        example_world))
           = (files example_world)
               ([''repo'', ''helpers'', ''temp''] @ [url_basename (URL_TEMPLATE_format ''7-2-0-2'')]
                  \<mapsto> [1, 2, 3]))"
proof -
  have g1: "http_get example_env_404 (URL_TEMPLATE_format ''7-2-0-2'')
      = Response \<lparr>status_code = 404, body_chunks = [], body_error = None\<rparr>"
    by (simp add: example_env_404_def)
  have h1: "download_installer example_env_404 ''7-2-0-2'' [''repo'', ''helpers'', ''temp'']
              example_world
            = (fst (download_installer example_env_404 ''7-2-0-2''
                      [''repo'', ''helpers'', ''temp''] example_world),
               snd (download_installer example_env_404 ''7-2-0-2''
                      [''repo'', ''helpers'', ''temp''] example_world))"
    by simp
  have part1: "fst (download_installer example_env_404 ''7-2-0-2'' [''repo'', ''helpers'', ''temp'']
              example_world) = Inl (SystemExit 1)
    \<and> files (snd (download_installer example_env_404 ''7-2-0-2'' [''repo'', ''helpers'', ''temp'']
                     example_world)) = files example_world"
    using download_installer_no_file_on_failure [OF h1] g1 by simp
  have g2: "http_get example_env (URL_TEMPLATE_format ''7-2-0-2'')
      = Response \<lparr>status_code = 200, body_chunks = [[1, 2], [], [3]], body_error = None\<rparr>"
    by (simp add: example_env_def)
  have h2: "download_installer example_env ''7-2-0-2'' [''repo'', ''helpers'', ''temp'']
              example_world
            = (fst (download_installer example_env ''7-2-0-2''
                      [''repo'', ''helpers'', ''temp''] example_world),
               snd (download_installer example_env ''7-2-0-2''
                      [''repo'', ''helpers'', ''temp''] example_world))"
    by simp
  have w2: "Write_file ([''repo'', ''helpers'', ''temp'']
                    @ [url_basename (URL_TEMPLATE_format ''7-2-0-2'')])
         \<in> set (trace (snd (download_installer example_env ''7-2-0-2''
                               [''repo'', ''helpers'', ''temp''] example_world)))
             - set (trace example_world)"
    by (simp add: download_installer_ok [OF g2] example_world_def)
  then have e2: "\<exists>p. Write_file p
         \<in> set (trace (snd (download_installer example_env ''7-2-0-2''
                               [''repo'', ''helpers'', ''temp''] example_world)))
             - set (trace example_world)"
    by (intro exI [where x = "[''repo'', ''helpers'', ''temp'']
                    @ [url_basename (URL_TEMPLATE_format ''7-2-0-2'')]"])
  note download_installer_no_file_on_failure [OF h2, THEN conjunct2, THEN mp, OF disjI2, OF e2]
  then obtain r where "http_get example_env (URL_TEMPLATE_format ''7-2-0-2'') = Response r"
    and "files (snd (download_installer example_env ''7-2-0-2''
                       [''repo'', ''helpers'', ''temp''] example_world))
          = (files example_world)
              ([''repo'', ''helpers'', ''temp''] @ [url_basename (URL_TEMPLATE_format ''7-2-0-2'')]
                 \<mapsto> concat (body_chunks r))"
    by (elim exE conjE)
  with g2 have part2: "files (snd (download_installer example_env ''7-2-0-2''
                        [''repo'', ''helpers'', ''temp''] example_world))
           = (files example_world)
               ([''repo'', ''helpers'', ''temp''] @ [url_basename (URL_TEMPLATE_format ''7-2-0-2'')]
                  \<mapsto> [1, 2, 3])"
    by simp
  from g1 part1 w2 part2 show ?thesis
    by (intro conjI) (erule conjunct1 conjunct2 | assumption)+
qed

subsection \<open>Cleanup\<close>

lemma cleanup_loop_files:
  "files (cleanup_loop ps w) p = (if p \<in> set ps then None else files w p)"
  by (induction ps arbitrary: w) (simp_all add: unlink_def emit_def)

lemma cleanup_loop_trace:
  "\<exists>evs. trace (cleanup_loop ps w) = trace w @ evs
     \<and> (\<forall>p\<in>set ps. files w p \<noteq> None \<longrightarrow>
           Unlink p \<in> set evs \<and> Print (Removed (path_name p)) \<in> set evs)
     \<and> (\<forall>e\<in>set evs. \<exists>p\<in>set ps. files w p \<noteq> None
           \<and> (e = Unlink p \<or> e = Print (Removed (path_name p))))"
proof (induction ps arbitrary: w)
  case Nil
  then show ?case by simp
next
  case (Cons q ps)
  define w1 where "w1 = (if files w q \<noteq> None
        then emit (Print (Removed (path_name q))) (unlink q w) else w)"
  define evs1 where "evs1 = (if files w q \<noteq> None
        then [Unlink q, Print (Removed (path_name q))] else [])"
  have t1: "trace w1 = trace w @ evs1"
    by (simp add: w1_def evs1_def unlink_def emit_def)
  have f1: "files w1 p = (if p = q then None else files w p)" for p
    by (simp add: w1_def unlink_def emit_def)
  from Cons.IH [of w1] obtain evs where
    t: "trace (cleanup_loop ps w1) = trace w1 @ evs" and
    a: "\<forall>p\<in>set ps. files w1 p \<noteq> None \<longrightarrow>
           Unlink p \<in> set evs \<and> Print (Removed (path_name p)) \<in> set evs" and
    b: "\<forall>e\<in>set evs. \<exists>p\<in>set ps. files w1 p \<noteq> None
           \<and> (e = Unlink p \<or> e = Print (Removed (path_name p)))"
    by blast
  have "trace (cleanup_loop (q # ps) w) = trace w @ (evs1 @ evs)"
    using t t1 by (simp add: w1_def)
  moreover have "\<forall>p\<in>set (q # ps). files w p \<noteq> None \<longrightarrow>
           Unlink p \<in> set (evs1 @ evs) \<and> Print (Removed (path_name p)) \<in> set (evs1 @ evs)"
  proof (intro ballI impI)
    fix p assume p: "p \<in> set (q # ps)" "files w p \<noteq> None"
    show "Unlink p \<in> set (evs1 @ evs) \<and> Print (Removed (path_name p)) \<in> set (evs1 @ evs)"
    proof (cases "p = q")
      case True
      with p show ?thesis by (simp add: evs1_def)
    next
      case False
      with p have "p \<in> set ps" "files w1 p \<noteq> None" by (simp_all add: f1)
      with a show ?thesis by simp
    qed
  qed
  moreover have "\<forall>e\<in>set (evs1 @ evs). \<exists>p\<in>set (q # ps). files w p \<noteq> None
           \<and> (e = Unlink p \<or> e = Print (Removed (path_name p)))"
  proof
    fix e assume "e \<in> set (evs1 @ evs)"
    then consider "e \<in> set evs1" | "e \<in> set evs" by auto
    then show "\<exists>p\<in>set (q # ps). files w p \<noteq> None
           \<and> (e = Unlink p \<or> e = Print (Removed (path_name p)))"
    proof cases
      case 1
      then show ?thesis by (auto simp: evs1_def split: if_splits)
    next
      case 2
      with b obtain p where "p \<in> set ps" "files w1 p \<noteq> None"
        "e = Unlink p \<or> e = Print (Removed (path_name p))" by blast
      then show ?thesis by (auto simp: f1 split: if_splits)
    qed
  qed
  ultimately show ?case by blast
qed

lemma cleanup_temp_files_Nil:
  "cleanup_temp_files [] w = \<lparr>files = files w, trace = trace w @ [Print Cleaning_up]\<rparr>"
  by (simp add: cleanup_temp_files_def emit_def)

lemma cleanup_temp_files_single:
  "cleanup_temp_files [p] w =
     (if files w p \<noteq> None
      then \<lparr>files = (files w)(p := None),
            trace = trace w @ [Print Cleaning_up, Unlink p, Print (Removed (path_name p))]\<rparr>
      else \<lparr>files = files w, trace = trace w @ [Print Cleaning_up]\<rparr>)"
  by (simp add: cleanup_temp_files_def emit_def unlink_def)

lemma main_with_requests_finally:
  assumes "files w (temp_dir_of env) = None"
    and "files w (manifest_path_of env) \<noteq> None"
    and "main_try env (manifest_path_of env) (version a) (hyphen_version_of (version a))
           (temp_dir_of env) (emit (Mkdir (temp_dir_of env)) w) = (r, installer_path, w2)"
  shows "main_with_requests env (Parsed a) w =
     (r, if keep_temp a then w2
         else cleanup_temp_files (case installer_path of Some p \<Rightarrow> [p] | None \<Rightarrow> []) w2)"
proof -
  from assms(2) obtain raw where "files w (manifest_path_of env) = Some raw" by blast
  then have "files (emit (Mkdir (temp_dir_of env)) w) (manifest_path_of env) = Some raw"
    by (simp add: emit_def)
  with assms(1,3) show ?thesis
    by (simp add: main_with_requests_def Let_def)
qed

text \<open>
  Claim C6. In a run that reaches the \<open>try\<close> (the arguments parse, the temp directory
  can be ensured, the manifest is found), whatever the \<open>try\<close> body does (return,
  \<open>sys.exit\<close>, or any other exception), \<open>main\<close> hands on that outcome, and without
  \<open>--keep-temp\<close> the state it leaves is the one \<open>cleanup_temp_files\<close> makes of the
  state after the body, for the installer path if it was bound and for the empty list
  otherwise. And \<open>cleanup_temp_files\<close>, for any list and state, leaves none of the
  listed paths on disk, leaves every other file alone, prints its heading, and unlinks and
  reports exactly the listed paths that existed.
\<close>

theorem cleanup_always_runs:
  assumes "files w (temp_dir_of env) = None"
    and "files w (manifest_path_of env) \<noteq> None"
    and "main_try env (manifest_path_of env) (version a) (hyphen_version_of (version a))
           (temp_dir_of env) (emit (Mkdir (temp_dir_of env)) w) = (r, installer_path, w2)"
    and "\<not> keep_temp a"
  shows "main_with_requests env (Parsed a) w
           = (r, cleanup_temp_files (case installer_path of Some p \<Rightarrow> [p] | None \<Rightarrow> []) w2)
     \<and> (\<forall>p\<in>set ps. files (cleanup_temp_files ps w0) p = None)
     \<and> (\<forall>p. p \<notin> set ps \<longrightarrow> files (cleanup_temp_files ps w0) p = files w0 p)
     \<and> (\<exists>evs. trace (cleanup_temp_files ps w0) = trace w0 @ Print Cleaning_up # evs
           \<and> (\<forall>p\<in>set ps. files w0 p \<noteq> None \<longrightarrow>
                 Unlink p \<in> set evs \<and> Print (Removed (path_name p)) \<in> set evs)
           \<and> (\<forall>e\<in>set evs. \<exists>p\<in>set ps. files w0 p \<noteq> None
                 \<and> (e = Unlink p \<or> e = Print (Removed (path_name p)))))"
proof -
  have "main_with_requests env (Parsed a) w
           = (r, cleanup_temp_files (case installer_path of Some p \<Rightarrow> [p] | None \<Rightarrow> []) w2)"
    using main_with_requests_finally [OF assms(1,2,3)] assms(4) by simp
  moreover have "\<forall>p\<in>set ps. files (cleanup_temp_files ps w0) p = None"
    by (simp add: cleanup_temp_files_def cleanup_loop_files)
  moreover have "\<forall>p. p \<notin> set ps \<longrightarrow> files (cleanup_temp_files ps w0) p = files w0 p"
    by (simp add: cleanup_temp_files_def cleanup_loop_files emit_def)
  moreover have "\<exists>evs. trace (cleanup_temp_files ps w0) = trace w0 @ Print Cleaning_up # evs
           \<and> (\<forall>p\<in>set ps. files w0 p \<noteq> None \<longrightarrow>
                 Unlink p \<in> set evs \<and> Print (Removed (path_name p)) \<in> set evs)
           \<and> (\<forall>e\<in>set evs. \<exists>p\<in>set ps. files w0 p \<noteq> None
                 \<and> (e = Unlink p \<or> e = Print (Removed (path_name p))))"
    using cleanup_loop_trace [of ps "emit (Print Cleaning_up) w0"]
    by (simp add: cleanup_temp_files_def emit_def)
  ultimately show ?thesis by blast
qed

theorem cleanup_always_runs_witness:
  "files example_world (temp_dir_of example_env) = None
   \<and> files example_world (manifest_path_of example_env) \<noteq> None
   \<and> \<not> keep_temp example_args
   \<and> main_with_requests example_env (Parsed example_args) example_world
       = (fst (main_try example_env (manifest_path_of example_env) (version example_args)
                 (hyphen_version_of (version example_args)) (temp_dir_of example_env)
                 (emit (Mkdir (temp_dir_of example_env)) example_world)),
          cleanup_temp_files
            (case fst (snd (main_try example_env (manifest_path_of example_env)
                 (version example_args) (hyphen_version_of (version example_args))
                 (temp_dir_of example_env) (emit (Mkdir (temp_dir_of example_env)) example_world)))
             of Some p \<Rightarrow> [p] | None \<Rightarrow> [])
            (snd (snd (main_try example_env (manifest_path_of example_env)
                 (version example_args) (hyphen_version_of (version example_args))
                 (temp_dir_of example_env) (emit (Mkdir (temp_dir_of example_env)) example_world)))))
   \<and> files (cleanup_temp_files [[''repo'', ''helpers'', ''temp'', ''old_Setup.exe'']] example_world)
       [''repo'', ''helpers'', ''temp'', ''old_Setup.exe''] = None"
proof -
  have h0: "files example_world (temp_dir_of example_env) = None"
    by (simp add: example_world_def example_env_def temp_dir_of_def)
  have h1: "files example_world (manifest_path_of example_env) \<noteq> None"
    by (simp add: example_world_def example_env_def manifest_path_of_def)
  have h2: "main_try example_env (manifest_path_of example_env) (version example_args)
                 (hyphen_version_of (version example_args)) (temp_dir_of example_env)
                 (emit (Mkdir (temp_dir_of example_env)) example_world)
     = (fst (main_try example_env (manifest_path_of example_env) (version example_args)
                 (hyphen_version_of (version example_args)) (temp_dir_of example_env)
                 (emit (Mkdir (temp_dir_of example_env)) example_world)),
        fst (snd (main_try example_env (manifest_path_of example_env) (version example_args)
                 (hyphen_version_of (version example_args)) (temp_dir_of example_env)
                 (emit (Mkdir (temp_dir_of example_env)) example_world))),
        snd (snd (main_try example_env (manifest_path_of example_env) (version example_args)
                 (hyphen_version_of (version example_args)) (temp_dir_of example_env)
                 (emit (Mkdir (temp_dir_of example_env)) example_world))))"
    by simp
  have h3: "\<not> keep_temp example_args"
    by (simp add: example_args_def)
  from cleanup_always_runs [OF h0 h1 h2 h3,
      of "[[''repo'', ''helpers'', ''temp'', ''old_Setup.exe'']]" example_world]
    h0 h1 h3 show ?thesis
    by simp
qed

subsection \<open>The bootstrap\<close>

lemma bootstrap_only_refl: "bootstrap_only env w w"
  by (simp add: bootstrap_only_def)

lemma bootstrap_only_trans:
  assumes "bootstrap_only env w w1" and "bootstrap_only env w1 w2"
  shows "bootstrap_only env w w2"
proof -
  from assms(1) obtain evs1 where
    f1: "\<forall>p. \<not> prefix (venv_path_of env) p \<longrightarrow> files w1 p = files w p" and
    t1: "trace w1 = trace w @ evs1" and b1: "list_all bootstrap_event evs1" and
    c1: "\<forall>p. Child_write p \<in> set evs1 \<longrightarrow> prefix (venv_path_of env) p"
    unfolding bootstrap_only_def by blast
  from assms(2) obtain evs2 where
    f2: "\<forall>p. \<not> prefix (venv_path_of env) p \<longrightarrow> files w2 p = files w1 p" and
    t2: "trace w2 = trace w1 @ evs2" and b2: "list_all bootstrap_event evs2" and
    c2: "\<forall>p. Child_write p \<in> set evs2 \<longrightarrow> prefix (venv_path_of env) p"
    unfolding bootstrap_only_def by blast
  have "trace w2 = trace w @ (evs1 @ evs2)"
    using t1 t2 by simp
  moreover have "list_all bootstrap_event (evs1 @ evs2)"
    using b1 b2 by simp
  moreover have "\<forall>p. Child_write p \<in> set (evs1 @ evs2) \<longrightarrow> prefix (venv_path_of env) p"
    using c1 c2 by auto
  moreover have "\<forall>p. \<not> prefix (venv_path_of env) p \<longrightarrow> files w2 p = files w p"
    using f1 f2 by simp
  ultimately show ?thesis
    unfolding bootstrap_only_def by blast
qed

lemma bootstrap_only_print:
  assumes "bootstrap_event (Print m)"
  shows "bootstrap_only env w (emit (Print m) w)"
  using assms by (simp add: bootstrap_only_def emit_def)

lemma bootstrap_only_spawn: "bootstrap_only env w (emit (Spawn c) w)"
  by (simp add: bootstrap_only_def emit_def bootstrap_event_def)

lemma fold_upd_outside:
  "q \<notin> fst ` set ws \<Longrightarrow> fold (\<lambda>(p, content) f. f(p \<mapsto> content)) ws f0 q = f0 q"
  by (induction ws arbitrary: f0) auto

lemma bootstrap_only_run_child: "bootstrap_only env w (run_child env c w)"
proof -
  define written where
    "written = map (\<lambda>(rel, content). (venv_path_of env @ rel, content)) (child_writes env c)"
  have pre: "prefix (venv_path_of env) p" if "p \<in> fst ` set written" for p
    using that by (auto simp: written_def)
  have "files (run_child env c w) p = files w p" if "\<not> prefix (venv_path_of env) p" for p
  proof -
    from that pre have "p \<notin> fst ` set written" by blast
    then show ?thesis
      by (simp add: run_child_def written_def [symmetric] fold_upd_outside)
  qed
  moreover have "trace (run_child env c w)
      = trace w @ ([Spawn c] @ map Child_get (child_gets env c)
                   @ map (\<lambda>(p, content). Child_write p) written)"
    by (simp add: run_child_def written_def [symmetric])
  moreover have "list_all bootstrap_event ([Spawn c] @ map Child_get (child_gets env c)
                   @ map (\<lambda>(p, content). Child_write p) written)"
    by (auto simp: list_all_iff bootstrap_event_def)
  moreover have "\<forall>p. Child_write p \<in> set ([Spawn c] @ map Child_get (child_gets env c)
                   @ map (\<lambda>(p, content). Child_write p) written)
        \<longrightarrow> prefix (venv_path_of env) p"
    using pre by force
  ultimately show ?thesis
    unfolding bootstrap_only_def by blast
qed

lemma setup_venv_bootstrap_only:
  "bootstrap_only env w (snd (setup_venv env w))
   \<and> (fst (setup_venv env w) = Inl CalledProcessError
      \<or> fst (setup_venv env w) = Inl (SystemExit 1)
      \<or> (\<exists>p. fst (setup_venv env w) = Inr p))"
proof -
  define w1 where "w1 = (if \<not> venv_exists env
                then run_child env Venv_create (emit (Print Creating_venv) w) else w)"
  define w2 where "w2 = run_child env Venv_import_requests w1"
  define w3 where "w3 = emit (Print Installing_requests) w2"
  define w4 where "w4 = run_child env Pip_install_requests w3"
  have b1: "bootstrap_only env w w1"
    unfolding w1_def
    by (auto intro: bootstrap_only_refl bootstrap_only_trans [OF bootstrap_only_print bootstrap_only_run_child]
        simp: bootstrap_event_def)
  have b2: "bootstrap_only env w w2"
    unfolding w2_def by (rule bootstrap_only_trans [OF b1 bootstrap_only_run_child])
  have b3: "bootstrap_only env w w3"
    unfolding w3_def
    by (rule bootstrap_only_trans [OF b2 bootstrap_only_print]) (simp add: bootstrap_event_def)
  have b4: "bootstrap_only env w w4"
    unfolding w4_def by (rule bootstrap_only_trans [OF b3 bootstrap_only_run_child])
  have f1: "bootstrap_only env w (emit (Print Venv_setup_failed) w1)"
    by (rule bootstrap_only_trans [OF b1 bootstrap_only_print]) (simp add: bootstrap_event_def)
  have f3: "bootstrap_only env w (emit (Print Venv_setup_failed) w3)"
    by (rule bootstrap_only_trans [OF b3 bootstrap_only_print]) (simp add: bootstrap_event_def)
  have "setup_venv env w =
     (if \<not> venv_exists env \<and> \<not> venv_create_ok env then (Inl CalledProcessError, w1)
      else if \<not> venv_python_found env
           then (Inl (SystemExit 1), emit (Print Venv_setup_failed) w1)
           else if venv_has_requests env
                then (Inr (venv_path_of env @ [''Scripts'', ''python.exe'']), w2)
                else if \<not> pip_found env
                     then (Inl (SystemExit 1), emit (Print Venv_setup_failed) w3)
                     else if pip_install_ok env
                          then (Inr (venv_path_of env @ [''Scripts'', ''python.exe'']), w4)
                          else (Inl CalledProcessError, w4))"
    by (simp add: setup_venv_def Let_def w1_def w2_def w3_def w4_def)
  with b1 b2 b4 f1 f3 show ?thesis
    by simp
qed

lemma bootstrap_only_quiet:
  assumes "bootstrap_only env w w0"
  obtains evs where "trace w0 = trace w @ evs" and "list_all bootstrap_event evs"
    and "Print Updating_manifest \<notin> set evs" and "\<forall>p. Write_file p \<notin> set evs"
    and "\<forall>p. Unlink p \<notin> set evs" and "\<forall>u. Http_get u \<notin> set evs"
    and "\<forall>q. Print (Manifest_not_found q) \<notin> set evs"
    and "\<forall>p. Child_write p \<in> set evs \<longrightarrow> prefix (venv_path_of env) p"
proof -
  from assms obtain evs where t: "trace w0 = trace w @ evs" and b: "list_all bootstrap_event evs"
    and c: "\<forall>p. Child_write p \<in> set evs \<longrightarrow> prefix (venv_path_of env) p"
    unfolding bootstrap_only_def by blast
  from b have "Print Updating_manifest \<notin> set evs" "\<forall>p. Write_file p \<notin> set evs"
    "\<forall>p. Unlink p \<notin> set evs" "\<forall>u. Http_get u \<notin> set evs"
    "\<forall>q. Print (Manifest_not_found q) \<notin> set evs"
    by (auto simp: list_all_iff bootstrap_event_def)
  with t b c that show ?thesis by blast
qed

lemma bootstrap_only_files:
  "bootstrap_only env w w0 \<Longrightarrow> \<not> prefix (venv_path_of env) p \<Longrightarrow> files w0 p = files w p"
  by (simp add: bootstrap_only_def)

lemma manifest_not_in_venv: "\<not> prefix (venv_path_of env) (manifest_path_of env)"
proof
  assume "prefix (venv_path_of env) (manifest_path_of env)"
  then obtain zs where z: "butlast (script_dir env) @ [''bucket'', ''firestorm-beta.json'']
      = script_dir env @ [''venv''] @ zs"
    by (auto simp: prefix_def venv_path_of_def manifest_path_of_def)
  show False
  proof (cases "script_dir env = []")
    case True
    with z show False by simp
  next
    case False
    then have "script_dir env = butlast (script_dir env) @ [last (script_dir env)]"
      by simp
    with z have "butlast (script_dir env) @ [''bucket'', ''firestorm-beta.json'']
      = butlast (script_dir env) @ ([last (script_dir env)] @ [''venv''] @ zs)"
      by (metis append.assoc)
    then have "[''bucket'', ''firestorm-beta.json''] = [last (script_dir env)] @ [''venv''] @ zs"
      by (simp only: same_append_eq)
    then show False by simp
  qed
qed


lemma installer_not_in_venv: "\<not> prefix (venv_path_of env) (temp_dir_of env @ [name])"
  by (auto simp: prefix_def venv_path_of_def temp_dir_of_def)

subsection \<open>The runs of main\<close>

lemma url_basename_setup_exe:
  "url_basename (pre @ ''_Setup.exe'') = url_basename pre @ ''_Setup.exe''"
  by (simp add: url_basename_def)

lemma url_basename_suffix:
  "\<exists>stem. url_basename (URL_TEMPLATE_format hv) = stem @ ''_Setup.exe''"
proof -
  have "URL_TEMPLATE_format hv
      = (''https://downloads.firestormviewer.org/preview/windows/Phoenix-Firestorm-Betax64_AVX2-''
         @ hv) @ ''_Setup.exe''"
    by (simp add: URL_TEMPLATE_format_def)
  then show ?thesis
    by (simp only: url_basename_setup_exe) blast
qed

lemma installer_not_manifest:
  "temp_dir_of env @ [url_basename (URL_TEMPLATE_format hv)] \<noteq> manifest_path_of env"
proof
  assume "temp_dir_of env @ [url_basename (URL_TEMPLATE_format hv)] = manifest_path_of env"
  then have "last (temp_dir_of env @ [url_basename (URL_TEMPLATE_format hv)])
      = last (manifest_path_of env)"
    by simp
  then have "url_basename (URL_TEMPLATE_format hv) = ''firestorm-beta.json''"
    by (simp add: manifest_path_of_def)
  then have "last (url_basename (URL_TEMPLATE_format hv)) = last ''firestorm-beta.json''"
    by simp
  moreover obtain stem where "url_basename (URL_TEMPLATE_format hv) = stem @ ''_Setup.exe''"
    using url_basename_suffix by blast
  ultimately show False
    by simp
qed

lemma download_installer_Inr:
  assumes "download_installer env hv td w = (Inr f, w1)"
  shows "\<exists>r. http_get env (URL_TEMPLATE_format hv) = Response r
     \<and> \<not> (400 \<le> status_code r \<and> status_code r < 600) \<and> body_error r = None
     \<and> f = td @ [url_basename (URL_TEMPLATE_format hv)]
     \<and> w1 = \<lparr>files = (files w)(f \<mapsto> concat (body_chunks r)),
              trace = trace w @ [Print (Downloading (URL_TEMPLATE_format hv)),
                                 Http_get (URL_TEMPLATE_format hv), Write_file f]\<rparr>"
proof (cases "http_get env (URL_TEMPLATE_format hv)")
  case (Transport_failure e)
  with assms show ?thesis by (simp add: download_installer_transport)
next
  case (Response r)
  show ?thesis
  proof (cases "400 \<le> status_code r \<and> status_code r < 600")
    case True
    with assms Response show ?thesis by (simp add: download_installer_status)
  next
    case False
    from assms show ?thesis
      unfolding download_installer_ok [OF Response False] using Response False
      by (auto simp: write_chunks_concat split: option.splits)
  qed
qed

lemma download_installer_Inl:
  assumes "download_installer env hv td w = (Inl e, w1)"
  shows "e = SystemExit 1 \<or> (\<exists>m. e = RequestException m)"
proof (cases "http_get env (URL_TEMPLATE_format hv)")
  case (Transport_failure e)
  with assms show ?thesis by (simp add: download_installer_transport)
next
  case (Response r)
  show ?thesis
  proof (cases "400 \<le> status_code r \<and> status_code r < 600")
    case True
    with assms Response show ?thesis by (simp add: download_installer_status)
  next
    case False
    from assms show ?thesis
      unfolding download_installer_ok [OF Response False]
      by (auto split: option.splits)
  qed
qed

lemma update_manifest_Inr:
  assumes "update_manifest env mp dv hv c w = (Inr u, w')"
  shows "\<exists>raw manifest manifest'. files w mp = Some raw \<and> json_load env raw = Some manifest
     \<and> manifest_assignments manifest dv hv c = Inr manifest'
     \<and> json_dump_error env manifest' = None
     \<and> w' = \<lparr>files = (files w)(mp \<mapsto> json_dump env manifest'),
              trace = trace w @ [Print Updating_manifest, Write_file mp]\<rparr>"
  using assms
  by (auto simp: update_manifest_def Let_def emit_def split: option.splits sum.splits)

lemma update_manifest_Inl:
  assumes "update_manifest env mp dv hv c w = (Inl e, w')"
  shows "exit_code (Inl e :: exn + unit) = 1"
  using assms
  by (auto simp: update_manifest_def Let_def emit_def split: option.splits sum.splits
      dest!: manifest_assignments_Inl)

lemma main_try_download_fails:
  assumes "download_installer env hv td w = (Inl e, w1)"
  shows "main_try env mp dv hv td w = (Inl e, None, w1)"
  using assms by (simp add: main_try_def)

lemma main_try_Inl:
  assumes "main_try env mp dv hv td w = (Inl e, ip, w')"
  shows "exit_code (Inl e :: exn + unit) = 1"
proof (cases "download_installer env hv td w")
  case (Pair r1 w1)
  show ?thesis
  proof (cases r1)
    case (Inl e1)
    with Pair assms have "e = e1" by (simp add: main_try_def)
    with download_installer_Inl [of env hv td w e1 w1] Pair Inl show ?thesis by auto
  next
    case (Inr f)
    show ?thesis
    proof (cases "files w1 f")
      case None
      with Pair Inr assms show ?thesis
        by (auto simp: main_try_def calculate_sha256_missing)
    next
      case (Some content)
      with Pair Inr assms show ?thesis
        by (auto simp: main_try_def calculate_sha256_result split: prod.splits sum.splits
            dest: update_manifest_Inl)
    qed
  qed
qed

lemma main_try_Inr:
  assumes "main_try env mp dv hv td w = (Inr u, ip, w3)"
  shows "\<exists>r raw manifest manifest'.
      http_get env (URL_TEMPLATE_format hv) = Response r
    \<and> ip = Some (td @ [url_basename (URL_TEMPLATE_format hv)])
    \<and> ((files w)(td @ [url_basename (URL_TEMPLATE_format hv)] \<mapsto> concat (body_chunks r))) mp
        = Some raw
    \<and> json_load env raw = Some manifest
    \<and> manifest_assignments manifest dv hv
          (str_upper (concat (map hex_byte (sha256 (concat (body_chunks r)))))) = Inr manifest'
    \<and> w3 = \<lparr>files = ((files w)(td @ [url_basename (URL_TEMPLATE_format hv)]
                          \<mapsto> concat (body_chunks r)))(mp \<mapsto> json_dump env manifest'),
             trace = trace w @
               [Print (Downloading (URL_TEMPLATE_format hv)),
                Http_get (URL_TEMPLATE_format hv),
                Write_file (td @ [url_basename (URL_TEMPLATE_format hv)]),
                Print Calculating_sha256,
                Print Updating_manifest,
                Write_file mp,
                Print (Done_version dv),
                Print (Sha256_report
                  (str_upper (concat (map hex_byte (sha256 (concat (body_chunks r))))))),
                Print (Next_steps dv)]\<rparr>"
proof -
  define f where "f = td @ [url_basename (URL_TEMPLATE_format hv)]"
  obtain r1 w1 where d: "download_installer env hv td w = (r1, w1)"
    by (cases "download_installer env hv td w")
  from assms d obtain f' where r1: "r1 = Inr f'"
    by (cases r1) (simp_all add: main_try_def)
  from download_installer_Inr [OF d [unfolded r1]] obtain r where
    g: "http_get env (URL_TEMPLATE_format hv) = Response r" and
    f': "f' = f" and
    w1: "w1 = \<lparr>files = (files w)(f \<mapsto> concat (body_chunks r)),
              trace = trace w @ [Print (Downloading (URL_TEMPLATE_format hv)),
                                 Http_get (URL_TEMPLATE_format hv), Write_file f]\<rparr>"
    unfolding f_def by blast
  define c where "c = str_upper (concat (map hex_byte (sha256 (concat (body_chunks r)))))"
  have "files w1 f = Some (concat (body_chunks r))"
    by (simp add: w1)
  then have s: "calculate_sha256 f w1 = (Inr c, emit (Print Calculating_sha256) w1)"
    unfolding c_def by (rule calculate_sha256_result)
  obtain r3 w3' where up: "update_manifest env mp dv hv c (emit (Print Calculating_sha256) w1)
      = (r3, w3')"
    by (cases "update_manifest env mp dv hv c (emit (Print Calculating_sha256) w1)")
  from assms d r1 f' s up obtain u' where r3: "r3 = Inr u'"
    by (cases r3) (simp_all add: main_try_def)
  from assms d r1 f' s up r3 have ip: "ip = Some f"
    and w3: "w3 = emit (Print (Next_steps dv)) (emit (Print (Sha256_report c))
                     (emit (Print (Done_version dv)) w3'))"
    by (simp_all add: main_try_def)
  from update_manifest_Inr [OF up [unfolded r3]] obtain raw manifest manifest' where
    raw: "files (emit (Print Calculating_sha256) w1) mp = Some raw" and
    l: "json_load env raw = Some manifest" and
    m: "manifest_assignments manifest dv hv c = Inr manifest'" and
    w3': "w3' = \<lparr>files = (files (emit (Print Calculating_sha256) w1))(mp \<mapsto> json_dump env manifest'),
              trace = trace (emit (Print Calculating_sha256) w1)
                        @ [Print Updating_manifest, Write_file mp]\<rparr>"
    by blast
  have "((files w)(f \<mapsto> concat (body_chunks r))) mp = Some raw"
    using raw by (simp add: w1 emit_def)
  moreover have "w3 = \<lparr>files = ((files w)(f \<mapsto> concat (body_chunks r)))(mp \<mapsto> json_dump env manifest'),
             trace = trace w @
               [Print (Downloading (URL_TEMPLATE_format hv)),
                Http_get (URL_TEMPLATE_format hv),
                Write_file f,
                Print Calculating_sha256,
                Print Updating_manifest,
                Write_file mp,
                Print (Done_version dv),
                Print (Sha256_report c),
                Print (Next_steps dv)]\<rparr>"
    by (simp add: w3 w3' w1 emit_def)
  ultimately show ?thesis
    using g ip l m unfolding f_def c_def by blast
qed



lemma main_with_requests_temp_is_file:
  assumes "files w (temp_dir_of env) \<noteq> None"
  shows "main_with_requests env (Parsed a) w = (Inl (FileExistsError (temp_dir_of env)), w)"
  using assms by (auto simp: main_with_requests_def Let_def)

lemma main_with_requests_no_manifest:
  assumes "files w (temp_dir_of env) = None" and "files w (manifest_path_of env) = None"
  shows "main_with_requests env (Parsed a) w =
     (Inl (SystemExit 1),
      \<lparr>files = files w,
       trace = trace w @ [Mkdir (temp_dir_of env),
                          Print (Manifest_not_found (manifest_path_of env))]\<rparr>)"
  using assms by (simp add: main_with_requests_def Let_def emit_def)

lemma main_with_requests_request_fails_exact:
  assumes "files w (temp_dir_of env) = None"
    and "files w (manifest_path_of env) \<noteq> None"
    and "(\<exists>e. http_get env (URL_TEMPLATE_format (hyphen_version_of (version a))) = Transport_failure e)
      \<or> (\<exists>r. http_get env (URL_TEMPLATE_format (hyphen_version_of (version a))) = Response r
             \<and> 400 \<le> status_code r \<and> status_code r < 600)"
  shows "main_with_requests env (Parsed a) w =
     (Inl (SystemExit 1),
      \<lparr>files = files w,
       trace = trace w @
         [Mkdir (temp_dir_of env),
          Print (Downloading (URL_TEMPLATE_format (hyphen_version_of (version a)))),
          Http_get (URL_TEMPLATE_format (hyphen_version_of (version a))),
          Print (case http_get env (URL_TEMPLATE_format (hyphen_version_of (version a))) of
                   Transport_failure e \<Rightarrow> Network_error e
                 | Response r \<Rightarrow>
                     if status_code r = 404
                     then Version_not_found (URL_TEMPLATE_format (hyphen_version_of (version a)))
                     else HTTP_error (status_code r))]
         @ (if keep_temp a then [] else [Print Cleaning_up])\<rparr>)"
proof -
  define w0 where "w0 = emit (Mkdir (temp_dir_of env)) w"
  define diag where "diag = (case http_get env (URL_TEMPLATE_format (hyphen_version_of (version a))) of
                   Transport_failure e \<Rightarrow> Network_error e
                 | Response r \<Rightarrow>
                     if status_code r = 404
                     then Version_not_found (URL_TEMPLATE_format (hyphen_version_of (version a)))
                     else HTTP_error (status_code r))"
  have d: "download_installer env (hyphen_version_of (version a)) (temp_dir_of env) w0
     = (Inl (SystemExit 1),
        \<lparr>files = files w0,
         trace = trace w0 @ [Print (Downloading (URL_TEMPLATE_format (hyphen_version_of (version a)))),
                             Http_get (URL_TEMPLATE_format (hyphen_version_of (version a))),
                             Print diag]\<rparr>)"
    using assms(3) unfolding diag_def
    by (auto simp: download_installer_transport download_installer_status)
  then have "main_try env (manifest_path_of env) (version a) (hyphen_version_of (version a))
           (temp_dir_of env) (emit (Mkdir (temp_dir_of env)) w)
     = (Inl (SystemExit 1), None,
        \<lparr>files = files w0,
         trace = trace w0 @ [Print (Downloading (URL_TEMPLATE_format (hyphen_version_of (version a)))),
                             Http_get (URL_TEMPLATE_format (hyphen_version_of (version a))),
                             Print diag]\<rparr>)"
    unfolding w0_def by (simp add: main_try_download_fails)
  from main_with_requests_finally [OF assms(1,2) this] show ?thesis
    unfolding diag_def [symmetric]
    by (simp add: cleanup_temp_files_Nil w0_def emit_def)
qed

lemma main_with_requests_request_fails:
  assumes "(\<exists>e. http_get env (URL_TEMPLATE_format (hyphen_version_of (version a))) = Transport_failure e)
      \<or> (\<exists>r. http_get env (URL_TEMPLATE_format (hyphen_version_of (version a))) = Response r
             \<and> 400 \<le> status_code r \<and> status_code r < 600)"
  shows "\<exists>e evs. main_with_requests env (Parsed a) w
            = (Inl e, \<lparr>files = files w, trace = trace w @ evs\<rparr>)
          \<and> exit_code (Inl e :: exn + unit) = 1
          \<and> Print Updating_manifest \<notin> set evs
          \<and> (\<forall>p. Write_file p \<notin> set evs) \<and> (\<forall>p. Unlink p \<notin> set evs)
          \<and> (\<forall>p. Child_write p \<notin> set evs)"
proof (cases "files w (temp_dir_of env)")
  case (Some x)
  then have "main_with_requests env (Parsed a) w = (Inl (FileExistsError (temp_dir_of env)), w)"
    by (simp add: main_with_requests_temp_is_file)
  then show ?thesis
    by (intro exI [where x = "FileExistsError (temp_dir_of env)"] exI [where x = "[]"]) simp
next
  case None
  show ?thesis
  proof (cases "files w (manifest_path_of env)")
    case n: None
    show ?thesis
      unfolding main_with_requests_no_manifest [OF None n]
      by (intro exI [where x = "SystemExit 1"]
          exI [where x = "[Mkdir (temp_dir_of env),
                           Print (Manifest_not_found (manifest_path_of env))]"]) simp
  next
    case (Some raw0)
    then have m: "files w (manifest_path_of env) \<noteq> None" by simp
    show ?thesis
      unfolding main_with_requests_request_fails_exact [OF None m assms]
      by (intro exI [where x = "SystemExit 1"]
          exI [where x = "[Mkdir (temp_dir_of env),
          Print (Downloading (URL_TEMPLATE_format (hyphen_version_of (version a)))),
          Http_get (URL_TEMPLATE_format (hyphen_version_of (version a))),
          Print (case http_get env (URL_TEMPLATE_format (hyphen_version_of (version a))) of
                   Transport_failure e \<Rightarrow> Network_error e
                 | Response r \<Rightarrow>
                     if status_code r = 404
                     then Version_not_found (URL_TEMPLATE_format (hyphen_version_of (version a)))
                     else HTTP_error (status_code r))]
         @ (if keep_temp a then [] else [Print Cleaning_up])"])
        (auto split: http_result.splits)
  qed
qed

lemma main_importable: "requests_importable env \<Longrightarrow> main env cl w = main_with_requests env cl w"
  by (simp add: main_def)

lemma main_via_bootstrap:
  assumes "\<not> requests_importable env"
  shows "\<exists>w0. bootstrap_only env w w0
     \<and> ((fst (main env cl w) = Inl CalledProcessError \<or> fst (main env cl w) = Inl (SystemExit 1))
          \<and> snd (main env cl w) = w0
        \<or> main env cl w
            = (Inl (SystemExit (exit_code (fst (main_with_requests env cl w0)))),
               snd (main_with_requests env cl w0)))"
proof -
  define w1 where "w1 = emit (Print Requests_not_found) w"
  define w2 where "w2 = snd (setup_venv env w1)"
  have b1: "bootstrap_only env w w1"
    unfolding w1_def by (rule bootstrap_only_print) (simp add: bootstrap_event_def)
  from setup_venv_bootstrap_only [of env w1] have
    b2: "bootstrap_only env w1 w2" and
    r: "fst (setup_venv env w1) = Inl CalledProcessError
        \<or> fst (setup_venv env w1) = Inl (SystemExit 1)
        \<or> (\<exists>p. fst (setup_venv env w1) = Inr p)"
    unfolding w2_def by simp_all
  have m: "main env cl w = run_with_venv env cl w1"
    using assms by (simp add: main_def w1_def)
  from r consider (fail) e where "fst (setup_venv env w1) = Inl e"
      "e = CalledProcessError \<or> e = SystemExit 1"
    | (ok) p where "fst (setup_venv env w1) = Inr p"
    by blast
  then show ?thesis
  proof cases
    case fail
    then have "setup_venv env w1 = (Inl e, w2)"
      unfolding w2_def by (metis prod.collapse)
    then have "main env cl w = (Inl e, w2)"
      using m by (simp add: run_with_venv_def)
    with fail(2) bootstrap_only_trans [OF b1 b2] show ?thesis
      by (intro exI [where x = w2]) auto
  next
    case ok
    define w3 where "w3 = emit (Spawn Rerun_script) (emit (Print Rerunning) w2)"
    have "bootstrap_only env w2 w3"
      unfolding w3_def
      by (rule bootstrap_only_trans [OF bootstrap_only_print bootstrap_only_spawn])
        (simp add: bootstrap_event_def)
    with b1 b2 have b3: "bootstrap_only env w w3"
      by (blast intro: bootstrap_only_trans)
    from ok have "setup_venv env w1 = (Inr p, w2)"
      unfolding w2_def by (metis prod.collapse)
    then have "main env cl w
       = (Inl (SystemExit (exit_code (fst (main_with_requests env cl w3)))),
          snd (main_with_requests env cl w3))"
      using m by (simp add: run_with_venv_def w3_def split: prod.splits)
    with b3 show ?thesis
      by (intro exI [where x = w3]) simp
  qed
qed

lemma main_try_Inr_download:
  assumes "main_try env mp dv hv td w = (Inr u, ip, w3)"
  shows "\<exists>r. http_get env (URL_TEMPLATE_format hv) = Response r
     \<and> \<not> (400 \<le> status_code r \<and> status_code r < 600) \<and> body_error r = None"
proof -
  obtain r1 w1 where d: "download_installer env hv td w = (r1, w1)"
    by (cases "download_installer env hv td w")
  from assms d obtain f where "r1 = Inr f"
    by (cases r1) (simp_all add: main_try_def)
  with d download_installer_Inr [of env hv td w f w1] show ?thesis
    by blast
qed

lemma main_with_requests_success:
  assumes "exit_code (fst (main_with_requests env (Parsed a) w)) = 0"
  shows "\<exists>r manifest' evs.
      http_get env (URL_TEMPLATE_format (hyphen_version_of (version a))) = Response r
    \<and> \<not> (400 \<le> status_code r \<and> status_code r < 600) \<and> body_error r = None
    \<and> trace (snd (main_with_requests env (Parsed a) w)) = trace w @ evs
    \<and> Http_get (URL_TEMPLATE_format (hyphen_version_of (version a))) \<in> set evs
    \<and> (\<forall>u. Http_get u \<in> set evs \<longrightarrow> u = URL_TEMPLATE_format (hyphen_version_of (version a)))
    \<and> files (snd (main_with_requests env (Parsed a) w)) (manifest_path_of env)
        = Some (json_dump env manifest')
    \<and> json_at manifest' [''architecture'', ''64bit'', ''url'']
        = Some (JString (URL_TEMPLATE_format (hyphen_version_of (version a))))
    \<and> json_at manifest' [''architecture'', ''64bit'', ''hash'']
        = Some (JString (''sha256:''
             @ str_upper (concat (map hex_byte (sha256 (concat (body_chunks r)))))))"
proof (cases "files w (manifest_path_of env) = None \<or> files w (temp_dir_of env) \<noteq> None")
  case True
  with assms show ?thesis
    by (cases "files w (temp_dir_of env)")
      (auto simp: main_with_requests_no_manifest main_with_requests_temp_is_file)
next
  case False
  then have m: "files w (manifest_path_of env) \<noteq> None"
    and td: "files w (temp_dir_of env) = None" by simp_all
  define hv where "hv = hyphen_version_of (version a)"
  define f where "f = temp_dir_of env @ [url_basename (URL_TEMPLATE_format hv)]"
  have fm: "f \<noteq> manifest_path_of env"
    unfolding f_def by (rule installer_not_manifest)
  obtain r0 ip w2 where t: "main_try env (manifest_path_of env) (version a) hv
           (temp_dir_of env) (emit (Mkdir (temp_dir_of env)) w) = (r0, ip, w2)"
    by (cases "main_try env (manifest_path_of env) (version a) hv
           (temp_dir_of env) (emit (Mkdir (temp_dir_of env)) w)") auto
  note fin = main_with_requests_finally [OF td m t [unfolded hv_def]]
  have "exit_code r0 = 0"
    using assms fin by simp
  then obtain u where r0: "r0 = Inr u"
    using main_try_Inl [of env "manifest_path_of env" "version a" hv "temp_dir_of env"
        "emit (Mkdir (temp_dir_of env)) w" _ ip w2] t
    by (cases r0) auto
  from main_try_Inr_download [OF t [unfolded r0]] obtain r where
    g: "http_get env (URL_TEMPLATE_format hv) = Response r" and
    ok: "\<not> (400 \<le> status_code r \<and> status_code r < 600)" "body_error r = None"
    by blast
  from main_try_Inr [OF t [unfolded r0]] g obtain raw manifest manifest' where
    ip: "ip = Some f" and
    ma: "manifest_assignments manifest (version a) hv
          (str_upper (concat (map hex_byte (sha256 (concat (body_chunks r)))))) = Inr manifest'" and
    w2: "w2 = \<lparr>files = ((files (emit (Mkdir (temp_dir_of env)) w))(f \<mapsto> concat (body_chunks r)))
                        (manifest_path_of env \<mapsto> json_dump env manifest'),
             trace = trace (emit (Mkdir (temp_dir_of env)) w) @
               [Print (Downloading (URL_TEMPLATE_format hv)),
                Http_get (URL_TEMPLATE_format hv),
                Write_file f,
                Print Calculating_sha256,
                Print Updating_manifest,
                Write_file (manifest_path_of env),
                Print (Done_version (version a)),
                Print (Sha256_report
                  (str_upper (concat (map hex_byte (sha256 (concat (body_chunks r))))))),
                Print (Next_steps (version a))]\<rparr>"
    unfolding f_def by auto
  define evs2 where "evs2 =
               [Mkdir (temp_dir_of env),
                Print (Downloading (URL_TEMPLATE_format hv)),
                Http_get (URL_TEMPLATE_format hv),
                Write_file f,
                Print Calculating_sha256,
                Print Updating_manifest,
                Write_file (manifest_path_of env),
                Print (Done_version (version a)),
                Print (Sha256_report
                  (str_upper (concat (map hex_byte (sha256 (concat (body_chunks r))))))),
                Print (Next_steps (version a))]"
  define evs where "evs = evs2 @ (if keep_temp a then []
      else [Print Cleaning_up, Unlink f, Print (Removed (path_name f))])"
  have t2: "trace w2 = trace w @ evs2" and f2: "files w2 f = Some (concat (body_chunks r))"
    and m2: "files w2 (manifest_path_of env) = Some (json_dump env manifest')"
    using fm by (simp_all add: w2 evs2_def emit_def)
  have res: "snd (main_with_requests env (Parsed a) w)
      = (if keep_temp a then w2 else cleanup_temp_files [f] w2)"
    using fin ip by simp
  have tr: "trace (snd (main_with_requests env (Parsed a) w)) = trace w @ evs"
    using t2 f2 by (simp add: res evs_def cleanup_temp_files_single)
  have fi: "files (snd (main_with_requests env (Parsed a) w)) (manifest_path_of env)
        = Some (json_dump env manifest')"
    using m2 f2 fm by (simp add: res cleanup_temp_files_single)
  have h1: "Http_get (URL_TEMPLATE_format hv) \<in> set evs"
    by (simp add: evs_def evs2_def)
  have h2: "\<forall>u. Http_get u \<in> set evs \<longrightarrow> u = URL_TEMPLATE_format hv"
    by (simp add: evs_def evs2_def)
  note tg = manifest_assignments_targets(2,3) [OF ma]
  from g ok tr h1 h2 fi tg show ?thesis
    unfolding hv_def by blast
qed

lemma main_with_requests_exit_codes:
  "exit_code (fst (main_with_requests env (Parsed a) w)) = 0
   \<or> exit_code (fst (main_with_requests env (Parsed a) w)) = 1"
proof (cases "files w (manifest_path_of env) = None \<or> files w (temp_dir_of env) \<noteq> None")
  case True
  then show ?thesis
    by (cases "files w (temp_dir_of env)")
      (auto simp: main_with_requests_no_manifest main_with_requests_temp_is_file)
next
  case False
  then have m: "files w (manifest_path_of env) \<noteq> None"
    and td: "files w (temp_dir_of env) = None" by simp_all
  obtain r0 ip w2 where t: "main_try env (manifest_path_of env) (version a)
           (hyphen_version_of (version a)) (temp_dir_of env)
           (emit (Mkdir (temp_dir_of env)) w) = (r0, ip, w2)"
    by (cases "main_try env (manifest_path_of env) (version a)
           (hyphen_version_of (version a)) (temp_dir_of env)
           (emit (Mkdir (temp_dir_of env)) w)") auto
  have "exit_code r0 = 0 \<or> exit_code r0 = 1"
    using main_try_Inl [of env "manifest_path_of env" "version a" "hyphen_version_of (version a)"
        "temp_dir_of env" "emit (Mkdir (temp_dir_of env)) w" _ ip w2] t
    by (cases r0) auto
  with main_with_requests_finally [OF td m t] show ?thesis
    by simp
qed

lemma main_exit_codes:
  "exit_code (fst (main env (Parsed a) w)) = 0 \<or> exit_code (fst (main env (Parsed a) w)) = 1"
proof (cases "requests_importable env")
  case True
  with main_with_requests_exit_codes [of env a w] show ?thesis
    by (simp add: main_importable)
next
  case False
  from main_via_bootstrap [OF False, of w "Parsed a"] obtain w0 where
    "(fst (main env (Parsed a) w) = Inl CalledProcessError
        \<or> fst (main env (Parsed a) w) = Inl (SystemExit 1))
          \<and> snd (main env (Parsed a) w) = w0
        \<or> main env (Parsed a) w
            = (Inl (SystemExit (exit_code (fst (main_with_requests env (Parsed a) w0)))),
               snd (main_with_requests env (Parsed a) w0))"
    by blast
  with main_with_requests_exit_codes [of env a w0] show ?thesis
    by auto
qed

lemma main_success_download:
  assumes "exit_code (fst (main env (Parsed a) w)) = 0"
  shows "\<exists>r. http_get env (URL_TEMPLATE_format (hyphen_version_of (version a))) = Response r
     \<and> \<not> (400 \<le> status_code r \<and> status_code r < 600) \<and> body_error r = None"
proof (cases "requests_importable env")
  case True
  with assms main_with_requests_success [of env a w] show ?thesis
    by (simp add: main_importable) blast
next
  case False
  from main_via_bootstrap [OF False, of w "Parsed a"] obtain w0 where
    "(fst (main env (Parsed a) w) = Inl CalledProcessError
        \<or> fst (main env (Parsed a) w) = Inl (SystemExit 1))
          \<and> snd (main env (Parsed a) w) = w0
        \<or> main env (Parsed a) w
            = (Inl (SystemExit (exit_code (fst (main_with_requests env (Parsed a) w0)))),
               snd (main_with_requests env (Parsed a) w0))"
    by blast
  with assms have "exit_code (fst (main_with_requests env (Parsed a) w0)) = 0"
    by auto
  from main_with_requests_success [OF this] show ?thesis
    by blast
qed

lemma main_download_fails:
  assumes "(\<exists>e. http_get env (URL_TEMPLATE_format (hyphen_version_of (version a))) = Transport_failure e)
      \<or> (\<exists>r. http_get env (URL_TEMPLATE_format (hyphen_version_of (version a))) = Response r
             \<and> (400 \<le> status_code r \<and> status_code r < 600 \<or> body_error r \<noteq> None))"
  shows "exit_code (fst (main env (Parsed a) w)) = 1"
proof -
  have "exit_code (fst (main env (Parsed a) w)) \<noteq> 0"
  proof
    assume "exit_code (fst (main env (Parsed a) w)) = 0"
    from main_success_download [OF this] assms show False
      by auto
  qed
  with main_exit_codes [of env a w] show ?thesis
    by simp
qed

subsection \<open>The claims about whole runs\<close>

text \<open>
  Claim C4. When the server answers the URL of the requested version with 404, the
  process exits with status 1 whatever way the run takes; the manifest file is as before,
  and so is every file outside the directory of the virtual environment (every file at
  all, when no bootstrap takes place); the script has opened nothing for writing and
  unlinked nothing, and the line of the update step is never printed. In a run that
  reaches the download (the import works, the temp directory can be ensured and the
  manifest exists), the run is: ensure the temp directory, announce the download, one GET,
  the version-not-found line, and the cleanup heading unless \<open>--keep-temp\<close> was given.
\<close>

theorem not_found_leaves_manifest:
  assumes "http_get env (URL_TEMPLATE_format (hyphen_version_of (version a))) = Response r"
    and "status_code r = 404"
  shows "exit_code (fst (main env (Parsed a) w)) = 1
     \<and> files (snd (main env (Parsed a) w)) (manifest_path_of env) = files w (manifest_path_of env)
     \<and> (\<forall>p. \<not> prefix (venv_path_of env) p \<longrightarrow> files (snd (main env (Parsed a) w)) p = files w p)
     \<and> (requests_importable env \<longrightarrow> files (snd (main env (Parsed a) w)) = files w)
     \<and> (\<exists>evs. trace (snd (main env (Parsed a) w)) = trace w @ evs
           \<and> Print Updating_manifest \<notin> set evs
           \<and> (\<forall>p. Write_file p \<notin> set evs) \<and> (\<forall>p. Unlink p \<notin> set evs)
           \<and> (\<forall>p. Child_write p \<in> set evs \<longrightarrow> prefix (venv_path_of env) p))
     \<and> (requests_importable env \<and> files w (temp_dir_of env) = None
          \<and> files w (manifest_path_of env) \<noteq> None \<longrightarrow>
           main env (Parsed a) w =
             (Inl (SystemExit 1),
              \<lparr>files = files w,
               trace = trace w @
                 [Mkdir (temp_dir_of env),
                  Print (Downloading (URL_TEMPLATE_format (hyphen_version_of (version a)))),
                  Http_get (URL_TEMPLATE_format (hyphen_version_of (version a))),
                  Print (Version_not_found (URL_TEMPLATE_format (hyphen_version_of (version a))))]
                 @ (if keep_temp a then [] else [Print Cleaning_up])\<rparr>))"
proof -
  have f: "(\<exists>e. http_get env (URL_TEMPLATE_format (hyphen_version_of (version a))) = Transport_failure e)
      \<or> (\<exists>r. http_get env (URL_TEMPLATE_format (hyphen_version_of (version a))) = Response r
             \<and> 400 \<le> status_code r \<and> status_code r < 600)"
    using assms by simp
  have exact: "requests_importable env \<and> files w (temp_dir_of env) = None
          \<and> files w (manifest_path_of env) \<noteq> None \<longrightarrow>
           main env (Parsed a) w =
             (Inl (SystemExit 1),
              \<lparr>files = files w,
               trace = trace w @
                 [Mkdir (temp_dir_of env),
                  Print (Downloading (URL_TEMPLATE_format (hyphen_version_of (version a)))),
                  Http_get (URL_TEMPLATE_format (hyphen_version_of (version a))),
                  Print (Version_not_found (URL_TEMPLATE_format (hyphen_version_of (version a))))]
                 @ (if keep_temp a then [] else [Print Cleaning_up])\<rparr>)"
  proof
    assume h: "requests_importable env \<and> files w (temp_dir_of env) = None
          \<and> files w (manifest_path_of env) \<noteq> None"
    then have "files w (temp_dir_of env) = None" "files w (manifest_path_of env) \<noteq> None"
      by simp_all
    from main_with_requests_request_fails_exact [OF this f] h assms
    show "main env (Parsed a) w =
             (Inl (SystemExit 1),
              \<lparr>files = files w,
               trace = trace w @
                 [Mkdir (temp_dir_of env),
                  Print (Downloading (URL_TEMPLATE_format (hyphen_version_of (version a)))),
                  Http_get (URL_TEMPLATE_format (hyphen_version_of (version a))),
                  Print (Version_not_found (URL_TEMPLATE_format (hyphen_version_of (version a))))]
                 @ (if keep_temp a then [] else [Print Cleaning_up])\<rparr>)"
      by (simp add: main_importable)
  qed
  have rest: "exit_code (fst (main env (Parsed a) w)) = 1
     \<and> files (snd (main env (Parsed a) w)) (manifest_path_of env) = files w (manifest_path_of env)
     \<and> (\<forall>p. \<not> prefix (venv_path_of env) p \<longrightarrow> files (snd (main env (Parsed a) w)) p = files w p)
     \<and> (requests_importable env \<longrightarrow> files (snd (main env (Parsed a) w)) = files w)
     \<and> (\<exists>evs. trace (snd (main env (Parsed a) w)) = trace w @ evs
           \<and> Print Updating_manifest \<notin> set evs
           \<and> (\<forall>p. Write_file p \<notin> set evs) \<and> (\<forall>p. Unlink p \<notin> set evs)
           \<and> (\<forall>p. Child_write p \<in> set evs \<longrightarrow> prefix (venv_path_of env) p))"
  proof (cases "requests_importable env")
    case True
    from main_with_requests_request_fails [OF f, of w] obtain e evs where
      "main_with_requests env (Parsed a) w = (Inl e, \<lparr>files = files w, trace = trace w @ evs\<rparr>)"
      "exit_code (Inl e :: exn + unit) = 1"
      "Print Updating_manifest \<notin> set evs" "\<forall>p. Write_file p \<notin> set evs"
      "\<forall>p. Unlink p \<notin> set evs" "\<forall>p. Child_write p \<notin> set evs"
      by blast
    with True show ?thesis by (simp add: main_importable)
  next
    case False
    from main_via_bootstrap [OF False, of w "Parsed a"] obtain w0 where
      b: "bootstrap_only env w w0" and
      c: "(fst (main env (Parsed a) w) = Inl CalledProcessError
            \<or> fst (main env (Parsed a) w) = Inl (SystemExit 1))
          \<and> snd (main env (Parsed a) w) = w0
        \<or> main env (Parsed a) w
            = (Inl (SystemExit (exit_code (fst (main_with_requests env (Parsed a) w0)))),
               snd (main_with_requests env (Parsed a) w0))"
      by blast
    from b obtain evs0 where
      t0: "trace w0 = trace w @ evs0" and
      q: "Print Updating_manifest \<notin> set evs0" "\<forall>p. Write_file p \<notin> set evs0"
         "\<forall>p. Unlink p \<notin> set evs0"
         "\<forall>p. Child_write p \<in> set evs0 \<longrightarrow> prefix (venv_path_of env) p"
      by (rule bootstrap_only_quiet)
    have f0: "files w0 p = files w p" if "\<not> prefix (venv_path_of env) p" for p
      using b that by (rule bootstrap_only_files)
    note fm = f0 [OF manifest_not_in_venv]
    from c show ?thesis
    proof
      assume "(fst (main env (Parsed a) w) = Inl CalledProcessError
            \<or> fst (main env (Parsed a) w) = Inl (SystemExit 1))
          \<and> snd (main env (Parsed a) w) = w0"
      with t0 q f0 fm False show ?thesis by auto
    next
      assume m: "main env (Parsed a) w
            = (Inl (SystemExit (exit_code (fst (main_with_requests env (Parsed a) w0)))),
               snd (main_with_requests env (Parsed a) w0))"
      from main_with_requests_request_fails [OF f, of w0] obtain e evs where
        r: "main_with_requests env (Parsed a) w0
              = (Inl e, \<lparr>files = files w0, trace = trace w0 @ evs\<rparr>)"
        "exit_code (Inl e :: exn + unit) = 1"
        "Print Updating_manifest \<notin> set evs" "\<forall>p. Write_file p \<notin> set evs"
        "\<forall>p. Unlink p \<notin> set evs" "\<forall>p. Child_write p \<notin> set evs"
        by blast
      have "trace (snd (main env (Parsed a) w)) = trace w @ (evs0 @ evs)"
        using m r(1) t0 by simp
      moreover have "Print Updating_manifest \<notin> set (evs0 @ evs)"
        "\<forall>p. Write_file p \<notin> set (evs0 @ evs)" "\<forall>p. Unlink p \<notin> set (evs0 @ evs)"
        "\<forall>p. Child_write p \<in> set (evs0 @ evs) \<longrightarrow> prefix (venv_path_of env) p"
        using q r by auto
      ultimately have "\<exists>evs. trace (snd (main env (Parsed a) w)) = trace w @ evs
           \<and> Print Updating_manifest \<notin> set evs
           \<and> (\<forall>p. Write_file p \<notin> set evs) \<and> (\<forall>p. Unlink p \<notin> set evs)
           \<and> (\<forall>p. Child_write p \<in> set evs \<longrightarrow> prefix (venv_path_of env) p)"
        by blast
      with m r f0 fm False show ?thesis by simp
    qed
  qed
  from rest exact show ?thesis by blast
qed

theorem not_found_leaves_manifest_witness:
  "http_get example_env_404 (URL_TEMPLATE_format (hyphen_version_of (version example_args)))
     = Response \<lparr>status_code = 404, body_chunks = [], body_error = None\<rparr>
   \<and> status_code \<lparr>status_code = 404, body_chunks = [], body_error = None\<rparr> = 404
   \<and> exit_code (fst (main example_env_404 (Parsed example_args) example_world)) = 1
   \<and> files (snd (main example_env_404 (Parsed example_args) example_world))
        (manifest_path_of example_env_404)
      = files example_world (manifest_path_of example_env_404)"
proof -
  have g1: "http_get example_env_404 (URL_TEMPLATE_format (hyphen_version_of (version example_args)))
     = Response \<lparr>status_code = 404, body_chunks = [], body_error = None\<rparr>"
    by (simp add: example_env_404_def)
  have g2: "status_code \<lparr>status_code = 404, body_chunks = [], body_error = None\<rparr> = 404"
    by simp
  note t = not_found_leaves_manifest [OF g1 g2, of example_world]
  from t have a: "exit_code (fst (main example_env_404 (Parsed example_args) example_world)) = 1"
    by (rule conjunct1)
  from t have b: "files (snd (main example_env_404 (Parsed example_args) example_world))
        (manifest_path_of example_env_404)
      = files example_world (manifest_path_of example_env_404)"
    by (rule conjunct2 [THEN conjunct1])
  from g1 g2 a b show ?thesis
    by (intro conjI)
qed

text \<open>
  Claim C9. When the process exits with status 0, the server answered the URL made from
  the template and the hyphenated version; that URL is the one GET request of the run; and
  the manifest file holds, at the end, the dump of a document whose
  \<open>architecture.64bit.url\<close> is that same URL and whose \<open>architecture.64bit.hash\<close> is
  \<open>sha256:\<close> followed by the uppercase hexadecimal SHA-256 of the bytes received from
  it.
\<close>

theorem manifest_url_is_download_url:
  assumes "exit_code (fst (main env (Parsed a) w)) = 0"
  shows "\<exists>r manifest' evs.
      http_get env (URL_TEMPLATE_format (hyphen_version_of (version a))) = Response r
    \<and> trace (snd (main env (Parsed a) w)) = trace w @ evs
    \<and> Http_get (URL_TEMPLATE_format (hyphen_version_of (version a))) \<in> set evs
    \<and> (\<forall>u. Http_get u \<in> set evs \<longrightarrow> u = URL_TEMPLATE_format (hyphen_version_of (version a)))
    \<and> files (snd (main env (Parsed a) w)) (manifest_path_of env) = Some (json_dump env manifest')
    \<and> json_at manifest' [''architecture'', ''64bit'', ''url'']
        = Some (JString (URL_TEMPLATE_format (hyphen_version_of (version a))))
    \<and> json_at manifest' [''architecture'', ''64bit'', ''hash'']
        = Some (JString (''sha256:''
             @ str_upper (concat (map hex_byte (sha256 (concat (body_chunks r)))))))"
proof (cases "requests_importable env")
  case True
  with assms have "exit_code (fst (main_with_requests env (Parsed a) w)) = 0"
    by (simp add: main_importable)
  from main_with_requests_success [OF this] True show ?thesis
    by (simp add: main_importable) blast
next
  case False
  from main_via_bootstrap [OF False, of w "Parsed a"] obtain w0 where
    b: "bootstrap_only env w w0" and
    c: "(fst (main env (Parsed a) w) = Inl CalledProcessError
            \<or> fst (main env (Parsed a) w) = Inl (SystemExit 1))
          \<and> snd (main env (Parsed a) w) = w0
        \<or> main env (Parsed a) w
            = (Inl (SystemExit (exit_code (fst (main_with_requests env (Parsed a) w0)))),
               snd (main_with_requests env (Parsed a) w0))"
    by blast
  from b obtain evs0 where
    t0: "trace w0 = trace w @ evs0" and q: "\<forall>u. Http_get u \<notin> set evs0"
    by (rule bootstrap_only_quiet)
  from c assms have m: "main env (Parsed a) w
      = (Inl (SystemExit (exit_code (fst (main_with_requests env (Parsed a) w0)))),
         snd (main_with_requests env (Parsed a) w0))"
    by auto
  with assms have "exit_code (fst (main_with_requests env (Parsed a) w0)) = 0"
    by simp
  from main_with_requests_success [OF this] obtain r manifest' evs where
    g: "http_get env (URL_TEMPLATE_format (hyphen_version_of (version a))) = Response r" and
    t: "trace (snd (main_with_requests env (Parsed a) w0)) = trace w0 @ evs" and
    h1: "Http_get (URL_TEMPLATE_format (hyphen_version_of (version a))) \<in> set evs" and
    h2: "\<forall>u. Http_get u \<in> set evs \<longrightarrow> u = URL_TEMPLATE_format (hyphen_version_of (version a))" and
    f: "files (snd (main_with_requests env (Parsed a) w0)) (manifest_path_of env)
        = Some (json_dump env manifest')" and
    j1: "json_at manifest' [''architecture'', ''64bit'', ''url'']
        = Some (JString (URL_TEMPLATE_format (hyphen_version_of (version a))))" and
    j2: "json_at manifest' [''architecture'', ''64bit'', ''hash'']
        = Some (JString (''sha256:''
             @ str_upper (concat (map hex_byte (sha256 (concat (body_chunks r)))))))"
    by blast
  have "trace (snd (main env (Parsed a) w)) = trace w @ (evs0 @ evs)"
    using t m t0 by simp
  moreover have "Http_get (URL_TEMPLATE_format (hyphen_version_of (version a))) \<in> set (evs0 @ evs)"
    using h1 by simp
  moreover have "\<forall>u. Http_get u \<in> set (evs0 @ evs)
      \<longrightarrow> u = URL_TEMPLATE_format (hyphen_version_of (version a))"
    using h2 q by auto
  moreover have "files (snd (main env (Parsed a) w)) (manifest_path_of env)
      = Some (json_dump env manifest')"
    using f m by simp
  ultimately show ?thesis
    using g j1 j2 by blast
qed

lemma example_run_succeeds:
  "fst (main example_env (Parsed example_args) example_world) = Inr ()"
proof -
  have g: "http_get example_env (URL_TEMPLATE_format (hyphen_version_of (version example_args)))
      = Response \<lparr>status_code = 200, body_chunks = [[1, 2], [], [3]], body_error = None\<rparr>"
    by (simp add: example_env_def)
  have ok: "\<not> (400 \<le> status_code \<lparr>status_code = 200, body_chunks = [[1, 2], [], [3]], body_error = None\<rparr>
       \<and> status_code \<lparr>status_code = 200, body_chunks = [[1, 2], [], [3]], body_error = None\<rparr> < 600)"
    by simp
  have m: "manifest_path_of example_env = [''repo'', ''bucket'', ''firestorm-beta.json'']"
    and td: "temp_dir_of example_env = [''repo'', ''helpers'', ''temp'']"
    by (simp_all add: manifest_path_of_def temp_dir_of_def example_env_def)
  have l: "json_load example_env [123, 125] = Some example_manifest"
    by (simp add: example_env_def)
  have i: "requests_importable example_env"
    by (simp add: example_env_def)
  have de: "json_dump_error example_env d = None" for d
    by (simp add: example_env_def)
  have e: "fst (main_try example_env [''repo'', ''bucket'', ''firestorm-beta.json'']
          (version example_args) (hyphen_version_of (version example_args))
          [''repo'', ''helpers'', ''temp'']
          (emit (Mkdir [''repo'', ''helpers'', ''temp'']) example_world)) = Inr ()"
    by (simp add: main_try_def download_installer_ok [OF g ok] calculate_sha256_result
        update_manifest_cases [OF _ l] manifest_assignments_def py_setitem3_def
        example_manifest_def example_world_def emit_def de split: prod.splits)
  have m0: "files example_world (manifest_path_of example_env) \<noteq> None"
    by (simp add: m example_world_def)
  have d0: "files example_world (temp_dir_of example_env) = None"
    by (simp add: td example_world_def)
  obtain r ip w2 where t: "main_try example_env (manifest_path_of example_env)
          (version example_args) (hyphen_version_of (version example_args))
          (temp_dir_of example_env)
          (emit (Mkdir (temp_dir_of example_env)) example_world) = (r, ip, w2)"
    by (cases "main_try example_env (manifest_path_of example_env)
          (version example_args) (hyphen_version_of (version example_args))
          (temp_dir_of example_env)
          (emit (Mkdir (temp_dir_of example_env)) example_world)") auto
  from e t have "r = Inr ()"
    by (simp add: m td)
  with main_with_requests_finally [OF d0 m0 t] show ?thesis
    by (simp add: main_importable [OF i])
qed

theorem manifest_url_is_download_url_witness:
  "exit_code (fst (main example_env (Parsed example_args) example_world)) = 0
   \<and> (\<exists>manifest'.
         files (snd (main example_env (Parsed example_args) example_world))
             (manifest_path_of example_env)
           = Some (json_dump example_env manifest')
       \<and> json_at manifest' [''architecture'', ''64bit'', ''url'']
           = Some (JString (URL_TEMPLATE_format (hyphen_version_of (version example_args)))))"
proof -
  have h: "exit_code (fst (main example_env (Parsed example_args) example_world)) = 0"
    by (simp add: example_run_succeeds)
  from manifest_url_is_download_url [OF h] obtain manifest' where
    "files (snd (main example_env (Parsed example_args) example_world))
             (manifest_path_of example_env)
           = Some (json_dump example_env manifest')"
    "json_at manifest' [''architecture'', ''64bit'', ''url'']
           = Some (JString (URL_TEMPLATE_format (hyphen_version_of (version example_args))))"
    by (elim exE conjE)
  then have "\<exists>manifest'.
         files (snd (main example_env (Parsed example_args) example_world))
             (manifest_path_of example_env)
           = Some (json_dump example_env manifest')
       \<and> json_at manifest' [''architecture'', ''64bit'', ''url'']
           = Some (JString (URL_TEMPLATE_format (hyphen_version_of (version example_args))))"
    by (intro exI [where x = manifest'] conjI)
  with h show ?thesis
    by (intro conjI)
qed

subsection \<open>Failures of the download\<close>

lemma main_with_requests_stream_fails_exact:
  assumes "files w (temp_dir_of env) = None"
    and "files w (manifest_path_of env) \<noteq> None"
    and "http_get env (URL_TEMPLATE_format (hyphen_version_of (version a))) = Response r"
    and "\<not> (400 \<le> status_code r \<and> status_code r < 600)"
    and "body_error r = Some e"
  shows "main_with_requests env (Parsed a) w =
     (Inl (RequestException e),
      \<lparr>files = (files w)(temp_dir_of env @ [url_basename (URL_TEMPLATE_format (hyphen_version_of (version a)))] \<mapsto> concat (body_chunks r)),
       trace = trace w @
         [Mkdir (temp_dir_of env),
          Print (Downloading (URL_TEMPLATE_format (hyphen_version_of (version a)))),
          Http_get (URL_TEMPLATE_format (hyphen_version_of (version a))),
          Write_file (temp_dir_of env @ [url_basename (URL_TEMPLATE_format (hyphen_version_of (version a)))])]
         @ (if keep_temp a then [] else [Print Cleaning_up])\<rparr>)"
proof -
  define w0 where "w0 = emit (Mkdir (temp_dir_of env)) w"
  define f where "f = temp_dir_of env @ [url_basename (URL_TEMPLATE_format (hyphen_version_of (version a)))]"
  have "download_installer env (hyphen_version_of (version a)) (temp_dir_of env) w0
     = (Inl (RequestException e),
        \<lparr>files = (files w0)(f \<mapsto> concat (body_chunks r)),
         trace = trace w0 @ [Print (Downloading (URL_TEMPLATE_format (hyphen_version_of (version a)))), Http_get (URL_TEMPLATE_format (hyphen_version_of (version a))), Write_file f]\<rparr>)"
    using assms(5) unfolding download_installer_ok [OF assms(3,4)] f_def
    by (simp add: write_chunks_concat)
  then have "main_try env (manifest_path_of env) (version a) (hyphen_version_of (version a))
           (temp_dir_of env) (emit (Mkdir (temp_dir_of env)) w)
     = (Inl (RequestException e), None,
        \<lparr>files = (files w0)(f \<mapsto> concat (body_chunks r)),
         trace = trace w0 @ [Print (Downloading (URL_TEMPLATE_format (hyphen_version_of (version a)))), Http_get (URL_TEMPLATE_format (hyphen_version_of (version a))), Write_file f]\<rparr>)"
    unfolding w0_def by (simp add: main_try_download_fails)
  from main_with_requests_finally [OF assms(1,2) this] show ?thesis
    unfolding f_def [symmetric]
    by (simp add: cleanup_temp_files_Nil w0_def emit_def)
qed

text \<open>
  Claim C5, as the code has it. \<open>download_installer\<close> has four ways to fail, and the
  \<open>try\<close> of lines 58 to 70 covers three of them. A transport failure of
  \<open>requests.get\<close> gives the network-error line, status 404 the version-not-found line,
  any other status from 400 to 599 the HTTP-error line; each time there was one request,
  that one line, \<open>sys.exit(1)\<close>, and no file was touched. A failure of the body stream
  after a status that passes \<open>raise_for_status\<close> happens in the loop of lines 72 to
  75, outside the \<open>try\<close>: the \<open>RequestException\<close> leaves the function as it is,
  no line is printed, and the destination holds the chunks written so far. Otherwise the
  function returns the destination. In each of the four failures the process that runs
  \<open>main\<close> for that version exits with status 1, after one request; in a run that
  reaches the download under the invoking interpreter the run is as given.
\<close>

theorem download_failure_classes:
  "download_installer env hv dest w =
     (case http_get env (URL_TEMPLATE_format hv) of
        Transport_failure e \<Rightarrow>
          (Inl (SystemExit 1),
           \<lparr>files = files w,
            trace = trace w @ [Print (Downloading (URL_TEMPLATE_format hv)), Http_get (URL_TEMPLATE_format hv),
                               Print (Network_error e)]\<rparr>)
      | Response r \<Rightarrow>
          if 400 \<le> status_code r \<and> status_code r < 600
          then (Inl (SystemExit 1),
                \<lparr>files = files w,
                 trace = trace w @ [Print (Downloading (URL_TEMPLATE_format hv)), Http_get (URL_TEMPLATE_format hv),
                                    Print (if status_code r = 404 then Version_not_found (URL_TEMPLATE_format hv)
                                           else HTTP_error (status_code r))]\<rparr>)
          else ((case body_error r of
                   Some e \<Rightarrow> Inl (RequestException e)
                 | None \<Rightarrow> Inr (dest @ [url_basename (URL_TEMPLATE_format hv)])),
                \<lparr>files = (files w)(dest @ [url_basename (URL_TEMPLATE_format hv)] \<mapsto> concat (body_chunks r)),
                 trace = trace w @ [Print (Downloading (URL_TEMPLATE_format hv)), Http_get (URL_TEMPLATE_format hv),
                                    Write_file (dest @ [url_basename (URL_TEMPLATE_format hv)])]\<rparr>))
   \<and> ((\<exists>e. http_get env (URL_TEMPLATE_format (hyphen_version_of (version a))) = Transport_failure e)
        \<or> (\<exists>r. http_get env (URL_TEMPLATE_format (hyphen_version_of (version a))) = Response r
              \<and> (400 \<le> status_code r \<and> status_code r < 600 \<or> body_error r \<noteq> None)) \<longrightarrow>
      exit_code (fst (main env (Parsed a) w')) = 1)
   \<and> (requests_importable env \<and> files w' (temp_dir_of env) = None
        \<and> files w' (manifest_path_of env) \<noteq> None
        \<and> ((\<exists>e. http_get env (URL_TEMPLATE_format (hyphen_version_of (version a))) = Transport_failure e)
            \<or> (\<exists>r. http_get env (URL_TEMPLATE_format (hyphen_version_of (version a))) = Response r
                  \<and> 400 \<le> status_code r \<and> status_code r < 600)) \<longrightarrow>
      main env (Parsed a) w' =
        (Inl (SystemExit 1),
         \<lparr>files = files w',
          trace = trace w' @
            [Mkdir (temp_dir_of env), Print (Downloading (URL_TEMPLATE_format (hyphen_version_of (version a)))), Http_get (URL_TEMPLATE_format (hyphen_version_of (version a))),
             Print (case http_get env (URL_TEMPLATE_format (hyphen_version_of (version a))) of
                      Transport_failure e \<Rightarrow> Network_error e
                    | Response r \<Rightarrow>
                        if status_code r = 404 then Version_not_found (URL_TEMPLATE_format (hyphen_version_of (version a)))
                        else HTTP_error (status_code r))]
            @ (if keep_temp a then [] else [Print Cleaning_up])\<rparr>))
   \<and> (requests_importable env \<and> files w' (temp_dir_of env) = None
        \<and> files w' (manifest_path_of env) \<noteq> None
        \<and> http_get env (URL_TEMPLATE_format (hyphen_version_of (version a))) = Response r' \<and> \<not> (400 \<le> status_code r' \<and> status_code r' < 600)
        \<and> body_error r' = Some e' \<longrightarrow>
      main env (Parsed a) w' =
        (Inl (RequestException e'),
         \<lparr>files = (files w')(temp_dir_of env @ [url_basename (URL_TEMPLATE_format (hyphen_version_of (version a)))] \<mapsto> concat (body_chunks r')),
          trace = trace w' @
            [Mkdir (temp_dir_of env), Print (Downloading (URL_TEMPLATE_format (hyphen_version_of (version a)))), Http_get (URL_TEMPLATE_format (hyphen_version_of (version a))),
             Write_file (temp_dir_of env @ [url_basename (URL_TEMPLATE_format (hyphen_version_of (version a)))])]
            @ (if keep_temp a then [] else [Print Cleaning_up])\<rparr>))"
proof (intro conjI impI)
  show "download_installer env hv dest w =
     (case http_get env (URL_TEMPLATE_format hv) of
        Transport_failure e \<Rightarrow>
          (Inl (SystemExit 1),
           \<lparr>files = files w,
            trace = trace w @ [Print (Downloading (URL_TEMPLATE_format hv)), Http_get (URL_TEMPLATE_format hv),
                               Print (Network_error e)]\<rparr>)
      | Response r \<Rightarrow>
          if 400 \<le> status_code r \<and> status_code r < 600
          then (Inl (SystemExit 1),
                \<lparr>files = files w,
                 trace = trace w @ [Print (Downloading (URL_TEMPLATE_format hv)), Http_get (URL_TEMPLATE_format hv),
                                    Print (if status_code r = 404 then Version_not_found (URL_TEMPLATE_format hv)
                                           else HTTP_error (status_code r))]\<rparr>)
          else ((case body_error r of
                   Some e \<Rightarrow> Inl (RequestException e)
                 | None \<Rightarrow> Inr (dest @ [url_basename (URL_TEMPLATE_format hv)])),
                \<lparr>files = (files w)(dest @ [url_basename (URL_TEMPLATE_format hv)] \<mapsto> concat (body_chunks r)),
                 trace = trace w @ [Print (Downloading (URL_TEMPLATE_format hv)), Http_get (URL_TEMPLATE_format hv),
                                    Write_file (dest @ [url_basename (URL_TEMPLATE_format hv)])]\<rparr>))"
  proof (cases "http_get env (URL_TEMPLATE_format hv)")
    case (Transport_failure e)
    then show ?thesis
      by (simp add: download_installer_transport)
  next
    case (Response r)
    show ?thesis
    proof (cases "400 \<le> status_code r \<and> status_code r < 600")
      case True
      with Response show ?thesis
        by (simp add: download_installer_status)
    next
      case False
      show ?thesis
        unfolding download_installer_ok [OF Response False]
        using Response False by (simp add: write_chunks_concat)
    qed
  qed
next
  assume "(\<exists>e. http_get env (URL_TEMPLATE_format (hyphen_version_of (version a))) = Transport_failure e)
        \<or> (\<exists>r. http_get env (URL_TEMPLATE_format (hyphen_version_of (version a))) = Response r
              \<and> (400 \<le> status_code r \<and> status_code r < 600 \<or> body_error r \<noteq> None))"
  then show "exit_code (fst (main env (Parsed a) w')) = 1"
    by (rule main_download_fails)
next
  assume h: "requests_importable env \<and> files w' (temp_dir_of env) = None
        \<and> files w' (manifest_path_of env) \<noteq> None
        \<and> ((\<exists>e. http_get env (URL_TEMPLATE_format (hyphen_version_of (version a))) = Transport_failure e)
            \<or> (\<exists>r. http_get env (URL_TEMPLATE_format (hyphen_version_of (version a))) = Response r
                  \<and> 400 \<le> status_code r \<and> status_code r < 600))"
  then have i: "requests_importable env" and t: "files w' (temp_dir_of env) = None"
    and m: "files w' (manifest_path_of env) \<noteq> None"
    and f: "(\<exists>e. http_get env (URL_TEMPLATE_format (hyphen_version_of (version a))) = Transport_failure e)
            \<or> (\<exists>r. http_get env (URL_TEMPLATE_format (hyphen_version_of (version a))) = Response r
                  \<and> 400 \<le> status_code r \<and> status_code r < 600)"
    by simp_all
  show "main env (Parsed a) w' =
        (Inl (SystemExit 1),
         \<lparr>files = files w',
          trace = trace w' @
            [Mkdir (temp_dir_of env), Print (Downloading (URL_TEMPLATE_format (hyphen_version_of (version a)))), Http_get (URL_TEMPLATE_format (hyphen_version_of (version a))),
             Print (case http_get env (URL_TEMPLATE_format (hyphen_version_of (version a))) of
                      Transport_failure e \<Rightarrow> Network_error e
                    | Response r \<Rightarrow>
                        if status_code r = 404 then Version_not_found (URL_TEMPLATE_format (hyphen_version_of (version a)))
                        else HTTP_error (status_code r))]
            @ (if keep_temp a then [] else [Print Cleaning_up])\<rparr>)"
    unfolding main_importable [OF i] by (rule main_with_requests_request_fails_exact [OF t m f])
next
  assume h: "requests_importable env \<and> files w' (temp_dir_of env) = None
        \<and> files w' (manifest_path_of env) \<noteq> None
        \<and> http_get env (URL_TEMPLATE_format (hyphen_version_of (version a))) = Response r' \<and> \<not> (400 \<le> status_code r' \<and> status_code r' < 600)
        \<and> body_error r' = Some e'"
  then have i: "requests_importable env" and t: "files w' (temp_dir_of env) = None"
    and m: "files w' (manifest_path_of env) \<noteq> None"
    and g: "http_get env (URL_TEMPLATE_format (hyphen_version_of (version a))) = Response r'"
    and ok: "\<not> (400 \<le> status_code r' \<and> status_code r' < 600)"
    and b: "body_error r' = Some e'"
    by simp_all
  show "main env (Parsed a) w' =
        (Inl (RequestException e'),
         \<lparr>files = (files w')(temp_dir_of env @ [url_basename (URL_TEMPLATE_format (hyphen_version_of (version a)))] \<mapsto> concat (body_chunks r')),
          trace = trace w' @
            [Mkdir (temp_dir_of env), Print (Downloading (URL_TEMPLATE_format (hyphen_version_of (version a)))), Http_get (URL_TEMPLATE_format (hyphen_version_of (version a))),
             Write_file (temp_dir_of env @ [url_basename (URL_TEMPLATE_format (hyphen_version_of (version a)))])]
            @ (if keep_temp a then [] else [Print Cleaning_up])\<rparr>)"
    unfolding main_importable [OF i]
    by (rule main_with_requests_stream_fails_exact [OF t m g ok b])
qed

theorem download_failure_classes_witness:
  "http_get example_env_offline (URL_TEMPLATE_format (hyphen_version_of (version example_args))) = Transport_failure ''timed out''
   \<and> exit_code (fst (main example_env_offline (Parsed example_args) example_world)) = 1
   \<and> http_get example_env_500 (URL_TEMPLATE_format (hyphen_version_of (version example_args)))
       = Response \<lparr>status_code = 500, body_chunks = [], body_error = None\<rparr>
   \<and> exit_code (fst (main example_env_500 (Parsed example_args) example_world)) = 1
   \<and> main example_env_500 (Parsed example_args) example_world
       = (Inl (SystemExit 1),
          \<lparr>files = files example_world,
           trace = [Mkdir (temp_dir_of example_env_500), Print (Downloading (URL_TEMPLATE_format (hyphen_version_of (version example_args)))),
                    Http_get (URL_TEMPLATE_format (hyphen_version_of (version example_args))), Print (HTTP_error 500), Print Cleaning_up]\<rparr>)"
proof -
  have g1: "http_get example_env_offline (URL_TEMPLATE_format (hyphen_version_of (version example_args))) = Transport_failure ''timed out''"
    by (simp add: example_env_offline_def)
  have g2: "http_get example_env_500 (URL_TEMPLATE_format (hyphen_version_of (version example_args)))
       = Response \<lparr>status_code = 500, body_chunks = [], body_error = None\<rparr>"
    by (simp add: example_env_500_def)
  have f1: "(\<exists>e. http_get example_env_offline (URL_TEMPLATE_format (hyphen_version_of (version example_args))) = Transport_failure e)
        \<or> (\<exists>r. http_get example_env_offline (URL_TEMPLATE_format (hyphen_version_of (version example_args))) = Response r
              \<and> (400 \<le> status_code r \<and> status_code r < 600 \<or> body_error r \<noteq> None))"
    using g1 by simp
  have f2: "(\<exists>e. http_get example_env_500 (URL_TEMPLATE_format (hyphen_version_of (version example_args))) = Transport_failure e)
        \<or> (\<exists>r. http_get example_env_500 (URL_TEMPLATE_format (hyphen_version_of (version example_args))) = Response r
              \<and> (400 \<le> status_code r \<and> status_code r < 600 \<or> body_error r \<noteq> None))"
    using g2 by simp
  have f3: "requests_importable example_env_500
        \<and> files example_world (temp_dir_of example_env_500) = None
        \<and> files example_world (manifest_path_of example_env_500) \<noteq> None
        \<and> ((\<exists>e. http_get example_env_500 (URL_TEMPLATE_format (hyphen_version_of (version example_args))) = Transport_failure e)
            \<or> (\<exists>r. http_get example_env_500 (URL_TEMPLATE_format (hyphen_version_of (version example_args))) = Response r
                  \<and> 400 \<le> status_code r \<and> status_code r < 600))"
    using g2
    by (simp add: example_env_500_def example_env_def example_world_def temp_dir_of_def
        manifest_path_of_def)
  have a1: "exit_code (fst (main example_env_offline (Parsed example_args) example_world)) = 1"
    by (rule download_failure_classes
        [where env = example_env_offline and a = example_args and w' = example_world,
         THEN conjunct2, THEN conjunct1, THEN mp, OF f1])
  have a2: "exit_code (fst (main example_env_500 (Parsed example_args) example_world)) = 1"
    by (rule download_failure_classes
        [where env = example_env_500 and a = example_args and w' = example_world,
         THEN conjunct2, THEN conjunct1, THEN mp, OF f2])
  have a3: "main example_env_500 (Parsed example_args) example_world
       = (Inl (SystemExit 1),
          \<lparr>files = files example_world,
           trace = [Mkdir (temp_dir_of example_env_500), Print (Downloading (URL_TEMPLATE_format (hyphen_version_of (version example_args)))),
                    Http_get (URL_TEMPLATE_format (hyphen_version_of (version example_args))), Print (HTTP_error 500), Print Cleaning_up]\<rparr>)"
    unfolding download_failure_classes
        [where env = example_env_500 and a = example_args and w' = example_world,
         THEN conjunct2, THEN conjunct2, THEN conjunct1, THEN mp, OF f3]
    unfolding g2
    by (simp add: example_world_def example_args_def)
  from g1 a1 g2 a2 a3 show ?thesis
    by (intro conjI)
qed

text \<open>
  The claim's three outcomes are not all: the connection breaks while the body of a 200
  answer is streamed. The exception passes \<open>download_installer\<close> and \<open>main\<close>
  unhandled, no network-error line is printed, and the chunk that arrived stays in the
  temp directory, for the \<open>finally\<close> block removes only a path that was returned.
\<close>

theorem download_failure_classes_counterexample:
  "http_get example_env_stream_break (URL_TEMPLATE_format (hyphen_version_of (version example_args)))
     = Response \<lparr>status_code = 200, body_chunks = [[1, 2]], body_error = Some ''connection reset''\<rparr>
   \<and> fst (download_installer example_env_stream_break (hyphen_version_of (version example_args))
            (temp_dir_of example_env_stream_break) example_world)
       = Inl (RequestException ''connection reset'')
   \<and> main example_env_stream_break (Parsed example_args) example_world
       = (Inl (RequestException ''connection reset''),
          \<lparr>files = (files example_world)
                     (temp_dir_of example_env_stream_break @ [url_basename (URL_TEMPLATE_format (hyphen_version_of (version example_args)))] \<mapsto> [1, 2]),
           trace = [Mkdir (temp_dir_of example_env_stream_break), Print (Downloading (URL_TEMPLATE_format (hyphen_version_of (version example_args)))),
                    Http_get (URL_TEMPLATE_format (hyphen_version_of (version example_args))),
                    Write_file (temp_dir_of example_env_stream_break @ [url_basename (URL_TEMPLATE_format (hyphen_version_of (version example_args)))]),
                    Print Cleaning_up]\<rparr>)
   \<and> Print (Network_error ''connection reset'')
       \<notin> set (trace (snd (main example_env_stream_break (Parsed example_args) example_world)))"
proof -
  have g: "http_get example_env_stream_break (URL_TEMPLATE_format (hyphen_version_of (version example_args)))
     = Response \<lparr>status_code = 200, body_chunks = [[1, 2]], body_error = Some ''connection reset''\<rparr>"
    by (simp add: example_env_stream_break_def)
  have ok: "\<not> (400 \<le> status_code \<lparr>status_code = 200, body_chunks = [[1, 2]],
                                  body_error = Some ''connection reset''\<rparr>
       \<and> status_code \<lparr>status_code = 200, body_chunks = [[1, 2]],
                       body_error = Some ''connection reset''\<rparr> < 600)"
    by simp
  have b: "body_error \<lparr>status_code = 200, body_chunks = [[1, 2]],
                        body_error = Some ''connection reset''\<rparr> = Some ''connection reset''"
    by simp
  have i: "requests_importable example_env_stream_break"
    by (simp add: example_env_stream_break_def example_env_def)
  have t: "files example_world (temp_dir_of example_env_stream_break) = None"
    by (simp add: example_env_stream_break_def example_env_def example_world_def temp_dir_of_def)
  have m: "files example_world (manifest_path_of example_env_stream_break) \<noteq> None"
    by (simp add: example_env_stream_break_def example_env_def example_world_def
        manifest_path_of_def)
  have d: "fst (download_installer example_env_stream_break (hyphen_version_of (version example_args))
            (temp_dir_of example_env_stream_break) example_world)
       = Inl (RequestException ''connection reset'')"
    unfolding download_installer_ok [OF g ok] by simp
  have r: "main example_env_stream_break (Parsed example_args) example_world
       = (Inl (RequestException ''connection reset''),
          \<lparr>files = (files example_world)
                     (temp_dir_of example_env_stream_break @ [url_basename (URL_TEMPLATE_format (hyphen_version_of (version example_args)))] \<mapsto> [1, 2]),
           trace = [Mkdir (temp_dir_of example_env_stream_break), Print (Downloading (URL_TEMPLATE_format (hyphen_version_of (version example_args)))),
                    Http_get (URL_TEMPLATE_format (hyphen_version_of (version example_args))),
                    Write_file (temp_dir_of example_env_stream_break @ [url_basename (URL_TEMPLATE_format (hyphen_version_of (version example_args)))]),
                    Print Cleaning_up]\<rparr>)"
    unfolding main_importable [OF i] main_with_requests_stream_fails_exact [OF t m g ok b]
    by (simp add: example_world_def example_args_def)
  have n: "Print (Network_error ''connection reset'')
       \<notin> set (trace (snd (main example_env_stream_break (Parsed example_args) example_world)))"
    unfolding r by simp
  from g d r n show ?thesis
    by (intro conjI)
qed

subsection \<open>A run without a manifest\<close>






end
